theory Spec2Isabelle
  imports Main
begin

section \<open>Session descriptions: class AudioCodesSDP\<close>

text \<open>
  A JavaScript string is modelled as a \<open>string\<close>. \<open>String.prototype.trim\<close> removes the
  white space and line terminator characters; the ones that exist in the 8-bit
  character type are listed in \<open>js_space\<close>.
\<close>

definition js_space :: "char \<Rightarrow> bool" where
  "js_space c = (c \<in> set [CHR 0x09, CHR 0x0A, CHR 0x0B, CHR 0x0C, CHR 0x0D, CHR 0x20, CHR 0xA0])"

definition trim :: "string \<Rightarrow> string" where
  "trim l = rev (dropWhile js_space (rev (dropWhile js_space l)))"

text \<open>\<open>sdp.split('\n')\<close>: the pieces between line feeds; the empty string gives one empty piece.\<close>

fun split_nl :: "string \<Rightarrow> string list" where
  "split_nl [] = [ [] ]"
| "split_nl (c # cs) =
     (if c = CHR 0x0A then [] # split_nl cs
      else (case split_nl cs of [] \<Rightarrow> [ [c] ] | l # ls \<Rightarrow> (c # l) # ls))"

definition startsWith :: "string \<Rightarrow> string \<Rightarrow> bool" where
  "startsWith l p = (take (length p) l = p)"

record AudioCodesSDP =
  start :: "string list"
  media :: "string list list"

text \<open>
  One turn of the constructor's loop. The variable \<open>current\<close> aliases \<open>this.start\<close> until
  the first \<open>m=\<close> line and the most recently pushed media block afterwards.
\<close>

definition sdp_push :: "AudioCodesSDP \<Rightarrow> string \<Rightarrow> AudioCodesSDP" where
  "sdp_push s line =
     (if startsWith line ''m='' then s\<lparr>media := media s @ [ [line] ]\<rparr>
      else if media s = [] then s\<lparr>start := start s @ [line]\<rparr>
      else s\<lparr>media := butlast (media s) @ [ last (media s) @ [line] ]\<rparr>)"

definition sdp_lines :: "string \<Rightarrow> string list" where
  "sdp_lines sdp = filter (\<lambda>l. length l > 0) (map trim (split_nl sdp))"

definition new_AudioCodesSDP :: "string \<Rightarrow> AudioCodesSDP" where
  "new_AudioCodesSDP sdp = foldl sdp_push \<lparr>start = [], media = []\<rparr> (sdp_lines sdp)"

text \<open>\<open>getMedia(type)\<close>: the first block whose first line starts with \<open>m=\<close> and the type; \<open>null\<close> is \<open>None\<close>.\<close>

fun getMedia_blocks :: "string list list \<Rightarrow> string \<Rightarrow> string list option" where
  "getMedia_blocks [] ty = None"
| "getMedia_blocks (m # ms) ty =
     (if length m > 0 \<and> startsWith (hd m) (''m='' @ ty) then Some m
      else getMedia_blocks ms ty)"

definition getMedia :: "AudioCodesSDP \<Rightarrow> string \<Rightarrow> string list option" where
  "getMedia s ty = getMedia_blocks (media s) ty"

definition checkSendRecv :: "string \<Rightarrow> string option" where
  "checkSendRecv line =
     (if line = ''a=sendrecv'' then Some ''sendrecv''
      else if line = ''a=sendonly'' then Some ''sendonly''
      else if line = ''a=recvonly'' then Some ''recvonly''
      else if line = ''a=inactive'' then Some ''inactive''
      else None)"

text \<open>
  Each \<open>for\<close> statement of \<open>getMediaDirectionValue\<close>: \<open>scan_direction result lines\<close> is the value of
  \<open>result\<close> after \<open>for (let line of lines) if ((t = checkSendRecv(line)) !== null) { result = t; break; }\<close>.
\<close>

fun scan_direction :: "string \<Rightarrow> string list \<Rightarrow> string" where
  "scan_direction result [] = result"
| "scan_direction result (line # lines) =
     (case checkSendRecv line of
        Some t \<Rightarrow> t
      | None \<Rightarrow> scan_direction result lines)"

definition getMediaDirectionValue :: "AudioCodesSDP \<Rightarrow> string \<Rightarrow> string option" where
  "getMediaDirectionValue s ty =
     (case getMedia s ty of
        None \<Rightarrow> None
      | Some m \<Rightarrow> Some (scan_direction (scan_direction ''sendrecv'' (start s)) m))"

text \<open>
  \<open>getMediaDirection(type, remote)\<close> returns the array \<open>[send, receive, dir]\<close>; a \<open>dir\<close> that
  matches no \<open>case\<close> label falls out of the \<open>switch\<close> and the function returns \<open>undefined\<close>,
  which is \<open>None\<close> here.
\<close>

definition getMediaDirection ::
  "AudioCodesSDP \<Rightarrow> string \<Rightarrow> bool \<Rightarrow> (bool \<times> bool \<times> string option) option" where
  "getMediaDirection s ty remote =
     (let dir = getMediaDirectionValue s ty in
      if dir = Some ''sendrecv'' then Some (True, True, dir)
      else if dir = Some ''sendonly'' then
        (if remote then Some (False, True, dir) else Some (True, False, dir))
      else if dir = Some ''recvonly'' then
        (if remote then Some (True, False, dir) else Some (False, True, dir))
      else if dir = None \<or> dir = Some ''inactive'' then Some (False, False, dir)
      else None)"


section \<open>The call session: class AudioCodesSession\<close>

text \<open>
  A media track has a \<open>kind\<close> (\<open>'audio'\<close> or \<open>'video'\<close>); \<open>track_id\<close> tells tracks apart.
  A transceiver of the peer connection is read through \<open>t.sender.track\<close> and
  \<open>t.receiver.track\<close>, each of which may be \<open>null\<close>.
\<close>

record track =
  kind :: string
  track_id :: nat

record transceiver =
  sender_track :: "track option"
  receiver_track :: "track option"

text \<open>
  The JsSIP session object, as far as this class reads it: \<open>isEnded()\<close>, \<open>isOnHold()\<close>,
  \<open>connection\<close> (its transceivers, in the order of \<open>getTransceivers()\<close>) and
  \<open>_localMediaStream\<close> (its tracks; \<open>None\<close> when the stream is not set).
\<close>

record js_session =
  isEnded :: bool
  isOnHold_local :: bool
  isOnHold_remote :: bool
  connection :: "transceiver list"
  localMediaStream :: "track list option"

record video_flags =
  send :: bool
  receive :: bool
  enabledSend :: bool
  enabledReceive :: bool

record screen_sharing =
  ss_track :: track
  hadSendVideo :: bool

text \<open>The fields of \<open>this.data\<close> that the negotiation code uses, and \<open>this.js_session\<close>.\<close>

record AudioCodesSession =
  js :: js_session
  data_initial :: bool
  data_wasUsedSendVideo :: bool
  data_screenSharing :: "screen_sharing option"
  data_video :: video_flags

definition new_AudioCodesSession :: "js_session \<Rightarrow> AudioCodesSession" where
  "new_AudioCodesSession j =
     \<lparr>js = j, data_initial = True, data_wasUsedSendVideo = False, data_screenSharing = None,
      data_video = \<lparr>send = False, receive = False, enabledSend = False, enabledReceive = False\<rparr>\<rparr>"

definition isTerminated :: "AudioCodesSession \<Rightarrow> bool" where
  "isTerminated s = isEnded (js s)"

definition isLocalHold :: "AudioCodesSession \<Rightarrow> bool" where
  "isLocalHold s = isOnHold_local (js s)"

definition isRemoteHold :: "AudioCodesSession \<Rightarrow> bool" where
  "isRemoteHold s = isOnHold_remote (js s)"

definition hasSendVideo :: "AudioCodesSession \<Rightarrow> bool" where
  "hasSendVideo s = send (data_video s)"

definition hasReceiveVideo :: "AudioCodesSession \<Rightarrow> bool" where
  "hasReceiveVideo s = receive (data_video s)"

definition hasVideo :: "AudioCodesSession \<Rightarrow> bool" where
  "hasVideo s = (hasSendVideo s \<and> hasReceiveVideo s)"

definition setVideoState :: "AudioCodesSession \<Rightarrow> bool \<Rightarrow> bool \<Rightarrow> AudioCodesSession" where
  "setVideoState s sendv recv = s\<lparr>data_video := (data_video s)\<lparr>send := sendv, receive := recv\<rparr>\<rparr>"

definition hasEnabledSendVideo :: "AudioCodesSession \<Rightarrow> bool" where
  "hasEnabledSendVideo s = enabledSend (data_video s)"

definition hasEnabledReceiveVideo :: "AudioCodesSession \<Rightarrow> bool" where
  "hasEnabledReceiveVideo s = enabledReceive (data_video s)"

definition setEnabledSendVideo :: "AudioCodesSession \<Rightarrow> bool \<Rightarrow> AudioCodesSession" where
  "setEnabledSendVideo s enable = s\<lparr>data_video := (data_video s)\<lparr>enabledSend := enable\<rparr>\<rparr>"

definition setEnabledReceiveVideo :: "AudioCodesSession \<Rightarrow> bool \<Rightarrow> AudioCodesSession" where
  "setEnabledReceiveVideo s enable = s\<lparr>data_video := (data_video s)\<lparr>enabledReceive := enable\<rparr>\<rparr>"

definition setRemoteHoldState :: "AudioCodesSession \<Rightarrow> AudioCodesSession" where
  "setRemoteHoldState s = s\<lparr>js := (js s)\<lparr>isOnHold_remote := True\<rparr>\<rparr>"

subsection \<open>The \<open>sdp\<close> event: \<open>AudioCodesUA._sdp_checking\<close>\<close>

text \<open>
  The event of the JsSIP session carries \<open>originator\<close> (\<open>'local'\<close> or \<open>'remote'\<close>), \<open>type\<close>
  (\<open>'offer'\<close> or \<open>'answer'\<close>) and the description text \<open>sdp\<close>.
\<close>

record sdp_event =
  e_originator :: string
  e_type :: string
  e_sdp :: string

text \<open>
  The \<open>try\<close> block: build the description and destructure the result of
  \<open>getMediaDirection\<close>. Destructuring \<open>undefined\<close> throws; \<open>None\<close> is the \<open>catch\<close> branch.
\<close>

definition sdp_try :: "sdp_event \<Rightarrow> (bool \<times> bool) option" where
  "sdp_try e =
     (case getMediaDirection (new_AudioCodesSDP (e_sdp e)) ''video'' (e_originator e = ''remote'') of
        None \<Rightarrow> None
      | Some (sendv, recv, dir) \<Rightarrow> Some (sendv, recv))"

definition sdp_checking :: "AudioCodesSession \<Rightarrow> sdp_event \<Rightarrow> AudioCodesSession" where
  "sdp_checking ac_session e =
     (let ty = e_originator e @ '' '' @ e_type e in
      case sdp_try e of
        None \<Rightarrow> ac_session
      | Some (sendv, recv) \<Rightarrow>
          let ac1 = (if e_type e = ''answer'' then ac_session\<lparr>data_initial := False\<rparr>
                     else ac_session)
          in if ty = ''remote offer'' then ac1
             else if ty = ''remote answer'' then
               (if isLocalHold ac1 \<or> isRemoteHold ac1 then ac1 else setVideoState ac1 sendv recv)
             else if ty = ''local offer'' then ac1
             else if ty = ''local answer'' then
               (if isLocalHold ac1 \<or> isRemoteHold ac1 then ac1 else setVideoState ac1 sendv recv)
             else ac1)"


section \<open>Values thrown by the code\<close>

text \<open>
  An \<open>Error\<close> object with its message, a thrown string, the \<open>undefined\<close> of a \<open>reject()\<close>
  without reason, the \<open>TypeError\<close> of a property access on \<open>null\<close> or \<open>undefined\<close>, the
  \<open>RangeError\<close> of an invalid array length, and an error reported by the browser.
\<close>

datatype js_error =
    JsError string
  | JsString string
  | JsUndefined
  | JsTypeError
  | JsRangeError
  | EngineError string

section \<open>WebSocket keep-alive: class AudioCodesUA\<close>

text \<open>
  The web socket as the keep-alive code uses it: \<open>readyState === WebSocket.OPEN\<close>, the
  number of \<open>CRLFCRLF\<close> pings passed to \<open>send\<close>, the number of calls of \<open>close\<close>, and
  whether \<open>onmessage\<close> has been replaced by \<open>_onMessageHook\<close>.
\<close>

record websocket =
  ws_open :: bool
  ws_hooked :: bool
  ws_pings :: nat
  ws_closes :: nat

text \<open>
  The keep-alive fields of the user agent. Web sockets are objects: the user agent holds
  a reference to one in \<open>wsSocket\<close>, and the function scheduled by \<open>setInterval\<close> holds a
  reference to the one it was created for. \<open>sockets\<close> is the store of the socket objects,
  addressed by their identity; \<open>wsSocket\<close> is \<open>None\<close> for \<open>null\<close> and the identity of
  the socket otherwise. \<open>wsPingTask\<close> is \<open>None\<close> for \<open>null\<close> and otherwise the period of the
  interval together with the identity of the socket captured by its function.
  \<open>wsPongTask\<close> is \<open>None\<close> for \<open>null\<close> and the delay of the timeout otherwise. Times and
  delays are in milliseconds. Numbers are integers in the range where JavaScript
  arithmetic is exact.
\<close>

record AudioCodesUA =
  sockets :: "nat \<Rightarrow> websocket"
  wsSocket :: "nat option"
  wsPingTask :: "(nat \<times> nat) option"
  wsPongTask :: "nat option"
  wsPingMs :: nat
  wsPongMs :: nat
  wsWasPong :: bool
  wsPongStats :: nat
  wsPongStatNum :: nat
  wsPongStatTime :: int
  wsPongStatDelayMin :: int
  wsPongStatDelayMax :: int
  wsPongStatDist :: "nat list option"

definition new_AudioCodesUA :: "(nat \<Rightarrow> websocket) \<Rightarrow> AudioCodesUA" where
  "new_AudioCodesUA store =
     \<lparr>sockets = store, wsSocket = None, wsPingTask = None, wsPongTask = None, wsPingMs = 0,
      wsPongMs = 0, wsWasPong = False, wsPongStats = 0, wsPongStatNum = 0, wsPongStatTime = 0,
      wsPongStatDelayMin = 1000000, wsPongStatDelayMax = 0, wsPongStatDist = None\<rparr>"

text \<open>
  The intervals are given in whole seconds, as in the phone configuration.
  \<open>new Array(pongSeconds * 4)\<close> throws a \<open>RangeError\<close> when the length is \<open>2\<^sup>3\<^sup>2\<close> or more;
  the three assignments before it have been made by then. The second component is the
  exception, if one is thrown.
\<close>

definition setWebSocketKeepAlive ::
  "nat \<Rightarrow> nat \<Rightarrow> nat \<Rightarrow> bool \<Rightarrow> AudioCodesUA \<Rightarrow> AudioCodesUA \<times> js_error option" where
  "setWebSocketKeepAlive pingSeconds pongSeconds pongStats pongDist ua =
     (let ua1 = ua\<lparr>wsPingMs := pingSeconds * 1000, wsPongMs := pongSeconds * 1000,
                     wsPongStats := pongStats\<rparr>
      in if pongDist then
           (if pongSeconds * 4 < 2 ^ 32
            then (ua1\<lparr>wsPongStatDist := Some (replicate (pongSeconds * 4) 0)\<rparr>, None)
            else (ua1, Some JsRangeError))
         else (ua1, None))"

text \<open>
  \<open>n = Math.floor(delay / 250); if (n >= length) n = length - 1; dist[n]++\<close>.
  A negative \<open>n\<close> writes a property beside the array elements, which stay as they are.
\<close>

definition dist_count :: "nat list \<Rightarrow> int \<Rightarrow> nat list" where
  "dist_count dist delay =
     (let n = delay div 250;
          n = (if n \<ge> int (length dist) then int (length dist) - 1 else n)
      in if 0 \<le> n then dist[nat n := dist ! nat n + 1] else dist)"

text \<open>
  \<open>_onPong\<close>, with \<open>now\<close> for \<open>Date.now()\<close>. The second component is the statistics line
  written to the log when the report is due: the number of pongs, the minimum and the
  maximum delay and the distribution.
\<close>

definition onPong ::
  "int \<Rightarrow> AudioCodesUA \<Rightarrow> AudioCodesUA \<times> (nat \<times> int \<times> int \<times> nat list option) option" where
  "onPong now ua =
     (if wsPongMs ua = 0 then (ua, None)
      else
        let ua1 = ua\<lparr>wsPongTask := None\<rparr>;
            ua2 = (if \<not> wsWasPong ua1 then ua1\<lparr>wsWasPong := True\<rparr> else ua1)
        in if wsPongStats ua2 > 0 then
             let delay = now - wsPongStatTime ua2;
                 ua3 = (if delay < wsPongStatDelayMin ua2
                        then ua2\<lparr>wsPongStatDelayMin := delay\<rparr> else ua2);
                 ua4 = (if delay > wsPongStatDelayMax ua3
                        then ua3\<lparr>wsPongStatDelayMax := delay\<rparr> else ua3);
                 ua5 = (case wsPongStatDist ua4 of
                          None \<Rightarrow> ua4
                        | Some dist \<Rightarrow> ua4\<lparr>wsPongStatDist := Some (dist_count dist delay)\<rparr>);
                 ua6 = ua5\<lparr>wsPongStatNum := wsPongStatNum ua5 + 1\<rparr>
             in if wsPongStatNum ua6 = wsPongStats ua6 then
                  (ua6\<lparr>wsPongStatDist :=
                          map_option (\<lambda>dist. replicate (length dist) 0) (wsPongStatDist ua6),
                        wsPongStatNum := 0,
                        wsPongStatDelayMin := 1000000,
                        wsPongStatDelayMax := 0\<rparr>,
                   Some (wsPongStatNum ua6, wsPongStatDelayMin ua6, wsPongStatDelayMax ua6,
                         wsPongStatDist ua6))
                else (ua6, None)
           else (ua2, None))"

text \<open>\<open>_onMessageHook\<close>: a bare CRLF is a pong; any other message goes to the SIP stack.\<close>

definition onMessageHook :: "string \<Rightarrow> int \<Rightarrow> AudioCodesUA \<Rightarrow> AudioCodesUA" where
  "onMessageHook data now ua =
     (if data = [CHR 0x0D, CHR 0x0A] then fst (onPong now ua) else ua)"

definition stopWsKeepAlive :: "AudioCodesUA \<Rightarrow> AudioCodesUA" where
  "stopWsKeepAlive ua =
     (let ua1 = (if wsPingTask ua \<noteq> None then ua\<lparr>wsPingTask := None\<rparr> else ua)
      in if wsPongTask ua1 \<noteq> None then ua1\<lparr>wsPongTask := None\<rparr> else ua1)"

text \<open>\<open>_onPongTimeout\<close>; \<open>this.wsSocket.close()\<close> on \<open>null\<close> throws and is caught.\<close>

definition onPongTimeout :: "AudioCodesUA \<Rightarrow> AudioCodesUA" where
  "onPongTimeout ua =
     (let ua1 = ua\<lparr>wsPongTask := None\<rparr>
      in if \<not> wsWasPong ua1 then ua1\<lparr>wsPongMs := 0\<rparr>
         else
           let ua2 = stopWsKeepAlive ua1
           in case wsSocket ua2 of
                None \<Rightarrow> ua2
              | Some i \<Rightarrow>
                  ua2\<lparr>sockets := (sockets ua2)
                         (i := (sockets ua2 i)\<lparr>ws_closes := ws_closes (sockets ua2 i) + 1\<rparr>)\<rparr>)"

text \<open>
  \<open>_startWsKeepAlive(websocket)\<close>, with the identity of the socket. With a ping interval
  of 0 it returns after the assignment to \<open>wsSocket\<close>: an interval scheduled before stays
  scheduled, with the socket it captured.
\<close>

definition startWsKeepAlive :: "nat \<Rightarrow> AudioCodesUA \<Rightarrow> AudioCodesUA" where
  "startWsKeepAlive websocket ua =
     (let ua1 = ua\<lparr>wsSocket := Some websocket\<rparr>
      in if wsPingMs ua1 = 0 then ua1
         else
           let ua2 = ua1\<lparr>sockets := (sockets ua1)
                          (websocket := (sockets ua1 websocket)\<lparr>ws_hooked := True\<rparr>)\<rparr>
           in (stopWsKeepAlive ua2)\<lparr>wsPingTask := Some (wsPingMs ua2, websocket)\<rparr>)"

text \<open>
  The function scheduled by \<open>setInterval\<close> in \<open>_startWsKeepAlive\<close>; \<open>websocket\<close> is the
  socket of the call that scheduled it, which need not be the one in \<open>wsSocket\<close>.
\<close>

definition pingTick :: "nat \<Rightarrow> int \<Rightarrow> AudioCodesUA \<Rightarrow> AudioCodesUA" where
  "pingTick websocket now ua =
     (let ua1 = (if wsPongMs ua > 0 \<and> wsPongTask ua = None then
                   (let ua0 = (if wsPongStats ua > 0 then ua\<lparr>wsPongStatTime := now\<rparr> else ua)
                    in ua0\<lparr>wsPongTask := Some (wsPongMs ua0)\<rparr>)
                 else ua)
      in if ws_open (sockets ua1 websocket) then
           ua1\<lparr>sockets := (sockets ua1)
                  (websocket := (sockets ua1 websocket)
                     \<lparr>ws_pings := ws_pings (sockets ua1 websocket) + 1\<rparr>)\<rparr>
         else ua1)"

text \<open>
  What can happen to the keep-alive monitor: the application configures it, the SIP
  stack reports a connection (with the identity of its socket) or a disconnection, a
  timer fires, a message arrives on a socket, or the ready state of a socket changes.
  A timer that is not scheduled does not fire, and a message reaches \<open>_onMessageHook\<close>
  only on a socket whose \<open>onmessage\<close> is the hook. An exception of
  \<open>setWebSocketKeepAlive\<close> goes to the application; the assignments made before it stay.
\<close>

datatype ka_event =
    Configure nat nat nat bool
  | Connected nat
  | Disconnected
  | PingTimer int
  | Message nat string int
  | PongTimer
  | ReadyState nat bool

fun ka_step :: "AudioCodesUA \<Rightarrow> ka_event \<Rightarrow> AudioCodesUA" where
  "ka_step ua (Configure pingSeconds pongSeconds pongStats pongDist) =
     fst (setWebSocketKeepAlive pingSeconds pongSeconds pongStats pongDist ua)"
| "ka_step ua (Connected websocket) = startWsKeepAlive websocket ua"
| "ka_step ua Disconnected = stopWsKeepAlive ua"
| "ka_step ua (PingTimer now) =
     (case wsPingTask ua of
        None \<Rightarrow> ua
      | Some (period, websocket) \<Rightarrow> pingTick websocket now ua)"
| "ka_step ua (Message websocket data now) =
     (if ws_hooked (sockets ua websocket) then onMessageHook data now ua else ua)"
| "ka_step ua PongTimer = (if wsPongTask ua = None then ua else onPongTimeout ua)"
| "ka_step ua (ReadyState websocket opn) =
     ua\<lparr>sockets := (sockets ua)(websocket := (sockets ua websocket)\<lparr>ws_open := opn\<rparr>)\<rparr>"

definition ka_run :: "AudioCodesUA \<Rightarrow> ka_event list \<Rightarrow> AudioCodesUA" where
  "ka_run ua es = foldl ka_step ua es"


section \<open>Renegotiation\<close>

text \<open>
  The options object of the video operations. An absent property is \<open>None\<close>.
\<close>

record call_options =
  opt_repeat :: "int option"
  opt_delay :: "int option"
  opt_enabledReceiveVideo :: "bool option"
  opt_extraHeaders :: "string list option"

text \<open>The rest properties of \<open>{ repeat = 30, delay = 500, ...options }\<close>.\<close>

definition rest_options :: "call_options \<Rightarrow> call_options" where
  "rest_options opts = opts\<lparr>opt_repeat := None, opt_delay := None\<rparr>"

text \<open>
  The calls made on the external collaborators (the JsSIP session, the browser's media
  engine and the application's listener), in the order in which they are made.
\<close>

datatype action =
    Renegotiate call_options
  | SetTimeout int
  | GetUserMedia
  | GetDisplayMedia
  | SetDirection nat string
  | AddTrack track
  | ReplaceTrack nat track
  | RemoveTrack nat
  | StreamAddTrack track
  | StreamRemoveTrack track
  | TrackStop track
  | CallScreenSharingEnded

text \<open>A promise settles once: later calls of \<open>resolve\<close> and \<open>reject\<close> have no effect.\<close>

datatype 'a promise = Pending | Resolved 'a | Rejected js_error

definition resolve :: "'a \<Rightarrow> 'a promise \<Rightarrow> 'a promise" where
  "resolve v p = (case p of Pending \<Rightarrow> Resolved v | _ \<Rightarrow> p)"

definition reject :: "js_error \<Rightarrow> 'a promise \<Rightarrow> 'a promise" where
  "reject e p = (case p of Pending \<Rightarrow> Rejected e | _ \<Rightarrow> p)"

text \<open>
  What the JsSIP session does at one attempt: \<open>isEnded()\<close> when the attempt runs, the
  value returned by \<open>renegotiate(options, done)\<close>, and whether \<open>done\<close> is called back
  afterwards.
\<close>

record reoffer =
  ended :: bool
  accepted :: bool
  completed :: bool

text \<open>
  \<open>_doRenegotiate\<close>: the executor rejects when the session is ended and goes on to call
  \<open>js_session.renegotiate\<close>; the callback \<open>done\<close> runs after the executor has returned.
\<close>

definition doRenegotiate :: "call_options \<Rightarrow> reoffer \<Rightarrow> action list \<times> bool promise" where
  "doRenegotiate options r =
     (let p0 = Pending;
          p1 = (if ended r then reject JsUndefined p0 else p0);
          p2 = (if \<not> accepted r then resolve False p1 else p1);
          p3 = (if completed r then resolve True p2 else p2)
      in ([Renegotiate options], p3))"

text \<open>The result of an \<open>async\<close> function: it returns, throws, or never settles.\<close>

datatype outcome = Returned | Threw js_error | NeverSettles

text \<open>
  The loop of \<open>_renegotiate\<close> from counter \<open>i\<close>; \<open>stack i\<close> is what the JsSIP session does
  at the attempt made with counter \<open>i\<close>.
\<close>

function renegotiate_loop ::
  "(nat \<Rightarrow> reoffer) \<Rightarrow> int \<Rightarrow> int \<Rightarrow> call_options \<Rightarrow> nat \<Rightarrow> action list \<times> outcome" where
  "renegotiate_loop stack rep del options i =
     (let (acts, p) = doRenegotiate options (stack i) in
      case p of
        Pending \<Rightarrow> (acts, NeverSettles)
      | Rejected e \<Rightarrow> (acts, Threw e)
      | Resolved ok \<Rightarrow>
          if ok then (acts, Returned)
          else if int (i + 1) \<ge> rep then
            (acts, Threw (JsString ''Renegotiation failed. Terminated''))
          else
            (let (acts2, out) = renegotiate_loop stack rep del options (i + 1)
             in (acts @ [SetTimeout del] @ acts2, out)))"
  by pat_completeness auto
termination
  by (relation "measure (\<lambda>(stack, rep, del, options, i). nat (rep - int i))") auto

declare renegotiate_loop.simps [simp del]

definition renegotiate :: "call_options \<Rightarrow> (nat \<Rightarrow> reoffer) \<Rightarrow> action list \<times> outcome" where
  "renegotiate opts stack =
     renegotiate_loop stack
       (case opt_repeat opts of None \<Rightarrow> 30 | Some r \<Rightarrow> r)
       (case opt_delay opts of None \<Rightarrow> 500 | Some d \<Rightarrow> d)
       (rest_options opts) 0"


section \<open>Sending video and screen sharing\<close>

text \<open>
  What the browser answers during one operation: the outcome of \<open>getUserMedia\<close> and
  \<open>getDisplayMedia\<close> (an error or the first video track of the stream), whether
  \<open>getDisplayMedia\<close> exists, and the errors of \<open>addTrack\<close>, \<open>replaceTrack\<close> and
  \<open>removeTrack\<close>, if they fail. The peer connection belongs to the browser: the model
  reads it and records the calls made on it.
\<close>

record media_engine =
  userMedia :: "string + track"
  hasDisplayMedia :: bool
  displayMedia :: "string + track"
  addTrack_error :: "string option"
  replaceTrack_error :: "string option"
  removeTrack_error :: "string option"

definition has_kind :: "track option \<Rightarrow> string \<Rightarrow> bool" where
  "has_kind t k = (case t of None \<Rightarrow> False | Some x \<Rightarrow> kind x = k)"

text \<open>\<open>connection.getTransceiver\<close>: the position of the first transceiver of the kind.\<close>

fun getTransceiver_from :: "nat \<Rightarrow> transceiver list \<Rightarrow> string \<Rightarrow> nat option" where
  "getTransceiver_from i [] k = None"
| "getTransceiver_from i (t # ts) k =
     (if has_kind (sender_track t) k then Some i
      else if has_kind (receiver_track t) k then Some i
      else getTransceiver_from (Suc i) ts k)"

definition getTransceiver :: "transceiver list \<Rightarrow> string \<Rightarrow> nat option" where
  "getTransceiver conn k = getTransceiver_from 0 conn k"

definition addVideo ::
  "media_engine \<Rightarrow> transceiver list \<Rightarrow> track \<Rightarrow> bool \<Rightarrow> bool \<Rightarrow> action list \<times> (js_error + bool)" where
  "addVideo me conn videoTrack enabledReceiveVideo wasUsedSendVideo =
     (case getTransceiver conn ''video'' of
        None \<Rightarrow>
          ([AddTrack videoTrack],
           case addTrack_error me of Some e \<Rightarrow> Inl (EngineError e) | None \<Rightarrow> Inr True)
      | Some vt \<Rightarrow>
          let dir = (if enabledReceiveVideo then ''sendrecv'' else ''sendonly'') in
          if sender_track (conn ! vt) = None \<and> \<not> wasUsedSendVideo then
            ([SetDirection vt dir, AddTrack videoTrack],
             case addTrack_error me of Some e \<Rightarrow> Inl (EngineError e) | None \<Rightarrow> Inr True)
          else
            ([SetDirection vt dir, ReplaceTrack vt videoTrack],
             case replaceTrack_error me of Some e \<Rightarrow> Inl (EngineError e) | None \<Rightarrow> Inr False))"

definition removeVideo ::
  "media_engine \<Rightarrow> transceiver list \<Rightarrow> track list option \<Rightarrow>
   action list \<times> js_error option \<times> track list option" where
  "removeVideo me conn localStream =
     (case getTransceiver conn ''video'' of
        None \<Rightarrow> ([], Some (JsString ''no video transceiver found''), localStream)
      | Some vt \<Rightarrow>
          (case removeTrack_error me of
             Some e \<Rightarrow> ([RemoveTrack vt], Some (EngineError e), localStream)
           | None \<Rightarrow>
               (case localStream of
                  None \<Rightarrow> ([RemoveTrack vt], None, None)
                | Some ts \<Rightarrow>
                    (RemoveTrack vt #
                       concat (map (\<lambda>t. [StreamRemoveTrack t, TrackStop t])
                                 (filter (\<lambda>t. kind t = ''video'') ts)),
                     None,
                     Some (filter (\<lambda>t. kind t \<noteq> ''video'') ts)))))"

fun find_sender_from :: "nat \<Rightarrow> transceiver list \<Rightarrow> string \<Rightarrow> nat option" where
  "find_sender_from i [] k = None"
| "find_sender_from i (t # ts) k =
     (if has_kind (sender_track t) k then Some i else find_sender_from (Suc i) ts k)"

text \<open>
  \<open>replaceSenderTrack\<close>: \<open>Inl\<close> is an exception thrown by the call itself (the stream is
  \<open>null\<close>); otherwise the calls made and the reason with which the returned promise is
  rejected, if it is.
\<close>

definition replaceSenderTrack ::
  "media_engine \<Rightarrow> transceiver list \<Rightarrow> string \<Rightarrow> track list option \<Rightarrow>
   js_error + (action list \<times> js_error option)" where
  "replaceSenderTrack me conn k stream =
     (case find_sender_from 0 conn k of
        None \<Rightarrow> Inr ([], Some (JsString (''No '' @ k @ '' sender'')))
      | Some foundSender \<Rightarrow>
          (case stream of
             None \<Rightarrow> Inl JsTypeError
           | Some ts \<Rightarrow>
               (case filter (\<lambda>t. kind t = (if k = ''audio'' then ''audio'' else ''video'')) ts of
                  [] \<Rightarrow> Inr ([], Some (JsString (''No '' @ k @ '' track'')))
                | t # _ \<Rightarrow>
                    Inr ([ReplaceTrack foundSender t],
                         map_option EngineError (replaceTrack_error me)))))"

text \<open>
  The operations of the session return the session, the calls made and the result of the
  \<open>async\<close> function. One operation runs to its end before the next event is taken.
\<close>

definition startSendingVideo ::
  "call_options \<Rightarrow> media_engine \<Rightarrow> (nat \<Rightarrow> reoffer) \<Rightarrow> AudioCodesSession \<Rightarrow>
   AudioCodesSession \<times> action list \<times> outcome" where
  "startSendingVideo options me stack s =
     (let enabledReceiveVideo = (opt_enabledReceiveVideo options \<noteq> Some False) in
      if hasEnabledSendVideo s then (s, [], Threw (JsError ''video already started''))
      else
        case userMedia me of
          Inl e \<Rightarrow> (s, [GetUserMedia], Threw (EngineError e))
        | Inr videoTrack \<Rightarrow>
            (case localMediaStream (js s) of
               None \<Rightarrow> (s, [GetUserMedia], Threw JsTypeError)
             | Some ts \<Rightarrow>
                 let s1 = s\<lparr>js := (js s)\<lparr>localMediaStream :=
                                 Some (if videoTrack \<in> set ts then ts else ts @ [videoTrack])\<rparr>\<rparr>;
                     s2 = setEnabledSendVideo s1 True;
                     s3 = setEnabledReceiveVideo s2 enabledReceiveVideo;
                     wasUsedSendVideo = data_wasUsedSendVideo s3;
                     (acts, r) = addVideo me (connection (js s3)) videoTrack
                                   (hasEnabledReceiveVideo s3) wasUsedSendVideo
                 in case r of
                      Inl e \<Rightarrow> (s3, [GetUserMedia, StreamAddTrack videoTrack] @ acts, Threw e)
                    | Inr _ \<Rightarrow>
                        let (racts, out) = renegotiate options stack
                        in (s3, [GetUserMedia, StreamAddTrack videoTrack] @ acts @ racts, out)))"

definition stopSendingVideo ::
  "call_options \<Rightarrow> media_engine \<Rightarrow> (nat \<Rightarrow> reoffer) \<Rightarrow> AudioCodesSession \<Rightarrow>
   AudioCodesSession \<times> action list \<times> outcome" where
  "stopSendingVideo options me stack s =
     (if \<not> hasEnabledSendVideo s then (s, [], Threw (JsError ''video already stopped''))
      else
        case removeVideo me (connection (js s)) (localMediaStream (js s)) of
          (acts, Some e, ls) \<Rightarrow> (s\<lparr>js := (js s)\<lparr>localMediaStream := ls\<rparr>\<rparr>, acts, Threw e)
        | (acts, None, ls) \<Rightarrow>
            let s1 = s\<lparr>js := (js s)\<lparr>localMediaStream := ls\<rparr>\<rparr>;
                s2 = setEnabledSendVideo s1 False;
                s3 = s2\<lparr>data_wasUsedSendVideo := True\<rparr>;
                (racts, out) = renegotiate options stack
            in (s3, acts @ racts, out))"


definition screen_options :: "string \<Rightarrow> call_options" where
  "screen_options header =
     \<lparr>opt_repeat = None, opt_delay = None, opt_enabledReceiveVideo = None,
      opt_extraHeaders = Some [header]\<rparr>"

definition startScreenSharing ::
  "media_engine \<Rightarrow> (nat \<Rightarrow> reoffer) \<Rightarrow> AudioCodesSession \<Rightarrow>
   AudioCodesSession \<times> action list \<times> outcome" where
  "startScreenSharing me stack s =
     (if \<not> hasDisplayMedia me then (s, [], Threw (JsString ''Screen sharing is not supported''))
      else
        case displayMedia me of
          Inl e \<Rightarrow> (s, [GetDisplayMedia], Threw (EngineError e))
        | Inr videoTrack \<Rightarrow>
            let s1 = s\<lparr>data_screenSharing :=
                         Some \<lparr>ss_track = videoTrack, hadSendVideo = hasSendVideo s\<rparr>\<rparr>;
                wasUsedSendVideo = data_wasUsedSendVideo s1;
                (acts, r) = addVideo me (connection (js s1)) videoTrack
                              (hasEnabledReceiveVideo s1) wasUsedSendVideo
            in case r of
                 Inl e \<Rightarrow> (s1\<lparr>data_screenSharing := None\<rparr>, GetDisplayMedia # acts, Threw e)
               | Inr videoAdded \<Rightarrow>
                   let s2 = setEnabledSendVideo s1 True;
                       (racts, out) = renegotiate (screen_options ''X-Screen-Sharing: on'') stack
                   in (s2, GetDisplayMedia # acts @ racts, out))"

text \<open>
  The end of \<open>_onEndedScreenSharing\<close>: the listener \<open>callScreenSharingEnded\<close>, when the
  application has set one, is called once the branch before it has returned.
\<close>

definition ended_listener ::
  "bool \<Rightarrow> AudioCodesSession \<times> action list \<times> outcome \<Rightarrow>
   AudioCodesSession \<times> action list \<times> outcome" where
  "ended_listener has_listener r =
     (case r of (s, acts, out) \<Rightarrow>
        if out = Returned \<and> has_listener then (s, acts @ [CallScreenSharingEnded], out)
        else (s, acts, out))"

text \<open>
  \<open>_onEndedScreenSharing\<close>. Reading \<open>hadSendVideo\<close> of \<open>null\<close> throws. The promise returned
  by \<open>replaceSenderTrack\<close> is not awaited, so only an exception of the call itself ends
  the function.
\<close>

definition onEndedScreenSharing ::
  "bool \<Rightarrow> media_engine \<Rightarrow> (nat \<Rightarrow> reoffer) \<Rightarrow> AudioCodesSession \<Rightarrow>
   AudioCodesSession \<times> action list \<times> outcome" where
  "onEndedScreenSharing has_listener me stack s =
     (let screenSharing = data_screenSharing s;
          s1 = s\<lparr>data_screenSharing := None\<rparr>
      in if isTerminated s1 then (s1, [], Returned)
         else
           let options = screen_options ''X-Screen-Sharing: off'' in
           case screenSharing of
             None \<Rightarrow> (s1, [], Threw JsTypeError)
           | Some ss \<Rightarrow>
               if hadSendVideo ss then
                 (case replaceSenderTrack me (connection (js s1)) ''video''
                         (localMediaStream (js s1)) of
                    Inl e \<Rightarrow> (s1, [], Threw e)
                  | Inr (acts, rejection) \<Rightarrow>
                      let (racts, out) = renegotiate options stack
                      in ended_listener has_listener (s1, acts @ racts, out))
               else ended_listener has_listener (stopSendingVideo options me stack s1))"

text \<open>
  \<open>stopScreenSharing\<close> stops the track and dispatches \<open>ended\<close> on it, which runs the
  handler above; without a screen-sharing record it does nothing.
\<close>

definition stopScreenSharing ::
  "bool \<Rightarrow> media_engine \<Rightarrow> (nat \<Rightarrow> reoffer) \<Rightarrow> AudioCodesSession \<Rightarrow>
   AudioCodesSession \<times> action list \<times> outcome" where
  "stopScreenSharing has_listener me stack s =
     (case data_screenSharing s of
        None \<Rightarrow> (s, [], Returned)
      | Some ss \<Rightarrow>
          (case onEndedScreenSharing has_listener me stack s of
             (s', acts, out) \<Rightarrow> (s', TrackStop (ss_track ss) # acts, out)))"

subsection \<open>The events of a call\<close>

text \<open>
  What can happen to a call session: an \<open>sdp\<close> event, a change of the JsSIP session
  (hold, unhold, termination, the connection and the local stream), the video flags set
  from the incoming INVITE, and the operations above.
\<close>

datatype call_event =
    Sdp sdp_event
  | JsSession js_session
  | IncomingVideoState bool bool
  | SetRemoteHoldState
  | StartSendingVideo call_options media_engine "nat \<Rightarrow> reoffer"
  | StopSendingVideo call_options media_engine "nat \<Rightarrow> reoffer"
  | StartScreenSharing media_engine "nat \<Rightarrow> reoffer"
  | EndedScreenSharing bool media_engine "nat \<Rightarrow> reoffer"
  | StopScreenSharing bool media_engine "nat \<Rightarrow> reoffer"

fun call_step :: "AudioCodesSession \<Rightarrow> call_event \<Rightarrow> AudioCodesSession" where
  "call_step s (Sdp e) = sdp_checking s e"
| "call_step s (JsSession j) = s\<lparr>js := j\<rparr>"
| "call_step s (IncomingVideoState sendv recv) = setVideoState s sendv recv"
| "call_step s SetRemoteHoldState = setRemoteHoldState s"
| "call_step s (StartSendingVideo options me stack) = fst (startSendingVideo options me stack s)"
| "call_step s (StopSendingVideo options me stack) = fst (stopSendingVideo options me stack s)"
| "call_step s (StartScreenSharing me stack) = fst (startScreenSharing me stack s)"
| "call_step s (EndedScreenSharing l me stack) = fst (onEndedScreenSharing l me stack s)"
| "call_step s (StopScreenSharing l me stack) = fst (stopScreenSharing l me stack s)"

definition call_run :: "AudioCodesSession \<Rightarrow> call_event list \<Rightarrow> AudioCodesSession" where
  "call_run s es = foldl call_step s es"

text \<open>An answer event, as \<open>_sdp_checking\<close> tests it.\<close>

definition is_answer :: "call_event \<Rightarrow> bool" where
  "is_answer ev = (case ev of Sdp e \<Rightarrow> e_type e = ''answer'' | _ \<Rightarrow> False)"

section \<open>Example inputs\<close>

definition sdp_video_sendonly :: string where
  "sdp_video_sendonly =
     ''v=0\<newline>a=sendrecv\<newline>m=audio 9 RTP/SAVPF 0\<newline>a=recvonly\<newline>m=video 9 RTP/SAVPF 96\<newline>a=mid:1\<newline>a=sendonly\<newline>''"

definition sdp_video_plain :: string where
  "sdp_video_plain = ''v=0\<newline>m=video 9 RTP/SAVPF 96\<newline>a=mid:1\<newline>''"

definition sdp_audio_inactive :: string where
  "sdp_audio_inactive = ''v=0\<newline>m=audio 9 RTP/SAVPF 0\<newline>a=inactive\<newline>''"

definition js_idle :: js_session where
  "js_idle = \<lparr>isEnded = False, isOnHold_local = False, isOnHold_remote = False,
              connection = [], localMediaStream = Some []\<rparr>"

definition js_held :: js_session where
  "js_held = js_idle\<lparr>isOnHold_local := True\<rparr>"

definition call_video :: AudioCodesSession where
  "call_video = setVideoState (new_AudioCodesSession js_idle) True True"

definition call_video_held :: AudioCodesSession where
  "call_video_held = call_video\<lparr>js := js_held\<rparr>"

definition ev_remote_offer :: sdp_event where
  "ev_remote_offer = \<lparr>e_originator = ''remote'', e_type = ''offer'', e_sdp = sdp_audio_inactive\<rparr>"

definition ev_local_answer :: sdp_event where
  "ev_local_answer = \<lparr>e_originator = ''local'', e_type = ''answer'', e_sdp = sdp_audio_inactive\<rparr>"

definition ev_remote_answer :: sdp_event where
  "ev_remote_answer = \<lparr>e_originator = ''remote'', e_type = ''answer'', e_sdp = sdp_video_sendonly\<rparr>"

definition opts_none :: call_options where
  "opts_none = \<lparr>opt_repeat = None, opt_delay = None, opt_enabledReceiveVideo = None,
                opt_extraHeaders = None\<rparr>"


definition stack_ended :: "nat \<Rightarrow> reoffer" where
  "stack_ended k = \<lparr>ended = True, accepted = False, completed = False\<rparr>"

definition camera :: track where
  "camera = \<lparr>kind = ''video'', track_id = 1\<rparr>"

definition microphone :: track where
  "microphone = \<lparr>kind = ''audio'', track_id = 0\<rparr>"

definition screen :: track where
  "screen = \<lparr>kind = ''video'', track_id = 2\<rparr>"

definition js_video_call :: js_session where
  "js_video_call =
     \<lparr>isEnded = False, isOnHold_local = False, isOnHold_remote = False,
      connection = [\<lparr>sender_track = Some microphone, receiver_track = None\<rparr>,
                    \<lparr>sender_track = Some camera, receiver_track = None\<rparr>],
      localMediaStream = Some [microphone, camera]\<rparr>"

definition browser :: media_engine where
  "browser = \<lparr>userMedia = Inr camera, hasDisplayMedia = True, displayMedia = Inr screen,
              addTrack_error = None, replaceTrack_error = None, removeTrack_error = None\<rparr>"

definition stack_accepting :: "nat \<Rightarrow> reoffer" where
  "stack_accepting k = \<lparr>ended = False, accepted = True, completed = True\<rparr>"

text \<open>A video call in both directions, as it is after the answer of an outgoing video call.\<close>

definition call_sending :: AudioCodesSession where
  "call_sending =
     setEnabledReceiveVideo
       (setEnabledSendVideo (setVideoState (new_AudioCodesSession js_video_call) True True) True)
       True"

definition call_sharing :: AudioCodesSession where
  "call_sharing =
     call_sending\<lparr>data_screenSharing := Some \<lparr>ss_track = screen, hadSendVideo = True\<rparr>\<rparr>"

definition js_audio_sharing :: js_session where
  "js_audio_sharing =
     \<lparr>isEnded = False, isOnHold_local = False, isOnHold_remote = False,
      connection = [\<lparr>sender_track = Some microphone, receiver_track = None\<rparr>,
                    \<lparr>sender_track = Some screen, receiver_track = None\<rparr>],
      localMediaStream = Some [microphone]\<rparr>"

definition call_audio_sharing :: AudioCodesSession where
  "call_audio_sharing =
     (setEnabledSendVideo (new_AudioCodesSession js_audio_sharing) True)
       \<lparr>data_screenSharing := Some \<lparr>ss_track = screen, hadSendVideo = False\<rparr>\<rparr>"

definition sdp_video_recvonly :: string where
  "sdp_video_recvonly =
     ''v=0\<newline>m=audio 9 RTP/SAVPF 0\<newline>m=video 9 RTP/SAVPF 96\<newline>a=recvonly\<newline>''"

definition ev_remote_answer_recvonly :: sdp_event where
  "ev_remote_answer_recvonly =
     \<lparr>e_originator = ''remote'', e_type = ''answer'', e_sdp = sdp_video_recvonly\<rparr>"

definition js_audio_call :: js_session where
  "js_audio_call =
     \<lparr>isEnded = False, isOnHold_local = False, isOnHold_remote = False,
      connection = [\<lparr>sender_track = Some microphone, receiver_track = None\<rparr>],
      localMediaStream = Some [microphone]\<rparr>"

text \<open>
  Screen sharing is started on an audio call, the connection gets its video sender, the
  remote side accepts the video, and screen sharing is started a second time.
\<close>

definition second_sharing :: "call_event list" where
  "second_sharing =
     [StartScreenSharing browser stack_accepting, JsSession js_audio_sharing,
      Sdp ev_remote_answer_recvonly, StartScreenSharing browser stack_accepting]"

section \<open>Keep-alive: the specification's words and example traces\<close>

definition is_configure :: "ka_event \<Rightarrow> bool" where
  "is_configure ev = (case ev of Configure a b c d \<Rightarrow> True | _ \<Rightarrow> False)"

definition is_connected :: "ka_event \<Rightarrow> bool" where
  "is_connected ev = (case ev of Connected w \<Rightarrow> True | _ \<Rightarrow> False)"

text \<open>
  The specification's reading of the first-timeout rule, for comparison with the flag
  \<open>wsWasPong\<close>: a pong has been observed on this transport when a CRLF message has arrived
  on the socket of the latest connection since it connected. The first component of the
  pair is that socket.
\<close>

definition pong_seen_on_transport :: "ka_event list \<Rightarrow> bool" where
  "pong_seen_on_transport es =
     snd (foldl (\<lambda>(cur, seen) ev.
                   case ev of
                     Connected i \<Rightarrow> (Some i, False)
                   | Message i d now \<Rightarrow> (cur, seen \<or> (cur = Some i \<and> d = [CHR 0x0D, CHR 0x0A]))
                   | _ \<Rightarrow> (cur, seen))
            (None, False) es)"


text \<open>
  Sockets that are open, not hooked and unused. The traces below use the sockets 11 and
  12.
\<close>

definition fresh_sockets :: "nat \<Rightarrow> websocket" where
  "fresh_sockets i = \<lparr>ws_open = True, ws_hooked = False, ws_pings = 0, ws_closes = 0\<rparr>"

definition reconnect_trace :: "ka_event list" where
  "reconnect_trace =
     [Configure 10 10 0 False, Connected 11, PingTimer 0,
      Message 11 [CHR 0x0D, CHR 0x0A] 5, Disconnected, Connected 12, PingTimer 20000]"

definition silent_trace :: "ka_event list" where
  "silent_trace = [Configure 10 10 0 False, Connected 11, PingTimer 0]"


definition ponged_trace :: "ka_event list" where
  "ponged_trace =
     [Configure 10 10 0 False, Connected 11, PingTimer 0,
      Message 11 [CHR 0x0D, CHR 0x0A] 5, PingTimer 10000]"

definition later_events :: "ka_event list" where
  "later_events =
     [PingTimer 10000, Message 11 [CHR 0x0D, CHR 0x0A] 10010, PongTimer, Disconnected,
      Connected 12, PingTimer 20000]"

text \<open>
  The keep-alive is switched off and on again around a second connection that is
  reported without a disconnection: the interval of the first connection stays
  scheduled, with the first socket.
\<close>

definition overlap_trace :: "ka_event list" where
  "overlap_trace =
     [Configure 10 10 0 False, Connected 11, PingTimer 0, Configure 0 0 0 False,
      Connected 12, Configure 10 10 0 False]"


section \<open>Properties of the session description\<close>

lemma scan_direction_first:
  "(\<forall>x\<in>set pre. checkSendRecv x = None) \<Longrightarrow> checkSendRecv l = Some d \<Longrightarrow>
   scan_direction r (pre @ l # post) = d"
  by (induction pre) simp_all

lemma scan_direction_none:
  "(\<forall>x\<in>set ls. checkSendRecv x = None) \<Longrightarrow> scan_direction r ls = r"
  by (induction ls) simp_all

lemma checkSendRecv_range:
  "checkSendRecv l = Some d \<Longrightarrow> d \<in> {''sendrecv'', ''sendonly'', ''recvonly'', ''inactive''}"
  by (auto simp: checkSendRecv_def split: if_splits)

lemma scan_direction_range:
  "r \<in> {''sendrecv'', ''sendonly'', ''recvonly'', ''inactive''} \<Longrightarrow>
   scan_direction r ls \<in> {''sendrecv'', ''sendonly'', ''recvonly'', ''inactive''}"
proof (induction ls)
  case Nil
  then show ?case by simp
next
  case (Cons l ls)
  show ?case
  proof (cases "checkSendRecv l")
    case None
    with Cons show ?thesis by simp
  next
    case (Some d)
    with checkSendRecv_range[OF Some] show ?thesis by simp
  qed
qed

lemma getMediaDirectionValue_range:
  "getMediaDirectionValue s ty \<in>
     {None, Some ''sendrecv'', Some ''sendonly'', Some ''recvonly'', Some ''inactive''}"
proof (cases "getMedia s ty")
  case None
  then show ?thesis by (simp add: getMediaDirectionValue_def)
next
  case (Some m)
  have "scan_direction ''sendrecv'' (start s) \<in> {''sendrecv'', ''sendonly'', ''recvonly'', ''inactive''}"
    by (rule scan_direction_range) simp
  then have "scan_direction (scan_direction ''sendrecv'' (start s)) m
      \<in> {''sendrecv'', ''sendonly'', ''recvonly'', ''inactive''}"
    by (rule scan_direction_range)
  with Some show ?thesis by (auto simp: getMediaDirectionValue_def)
qed

lemma getMediaDirection_defined: "getMediaDirection s ty remote \<noteq> None"
  using getMediaDirectionValue_range[of s ty]
  by (auto simp: getMediaDirection_def Let_def)

lemma parse_video_sendonly:
  "new_AudioCodesSDP sdp_video_sendonly =
     \<lparr>start = [''v=0'', ''a=sendrecv''],
      media = [ [''m=audio 9 RTP/SAVPF 0'', ''a=recvonly''],
               [''m=video 9 RTP/SAVPF 96'', ''a=mid:1'', ''a=sendonly''] ]\<rparr>"
  by code_simp

lemma parse_video_plain:
  "new_AudioCodesSDP sdp_video_plain =
     \<lparr>start = [''v=0''], media = [ [''m=video 9 RTP/SAVPF 96'', ''a=mid:1''] ]\<rparr>"
  by code_simp

lemma parse_audio_inactive:
  "new_AudioCodesSDP sdp_audio_inactive =
     \<lparr>start = [''v=0''], media = [ [''m=audio 9 RTP/SAVPF 0'', ''a=inactive''] ]\<rparr>"
  by code_simp

text \<open>
  Claim C5. The resolved direction attribute is mapped to the pair (can send, can
  receive) as the analysing party sees it: \<open>sendrecv\<close> gives (true, true); \<open>sendonly\<close> gives
  (false, true) for a remote description and (true, false) for a local one; \<open>recvonly\<close>
  gives (true, false) for a remote description and (false, true) for a local one;
  \<open>inactive\<close> and a description without a block of the kind give (false, false); a
  description with a block of the kind resolves to one of the four attributes. In
  particular, a description with \<open>a=sendrecv\<close> at session level whose video block has
  \<open>a=sendonly\<close> as its direction attribute, analysed as remote, gives (false, true).
\<close>

theorem getMediaDirection_perspective:
  "(getMediaDirectionValue s ty = Some ''sendrecv'' \<longrightarrow>
      getMediaDirection s ty remote = Some (True, True, Some ''sendrecv''))
   \<and> (getMediaDirectionValue s ty = Some ''sendonly'' \<longrightarrow>
      getMediaDirection s ty remote = Some (\<not> remote, remote, Some ''sendonly''))
   \<and> (getMediaDirectionValue s ty = Some ''recvonly'' \<longrightarrow>
      getMediaDirection s ty remote = Some (remote, \<not> remote, Some ''recvonly''))
   \<and> (getMediaDirectionValue s ty = Some ''inactive'' \<longrightarrow>
      getMediaDirection s ty remote = Some (False, False, Some ''inactive''))
   \<and> (getMedia s ty = None \<longrightarrow>
      getMediaDirection s ty remote = Some (False, False, None))
   \<and> (getMedia s ty \<noteq> None \<longrightarrow>
      getMediaDirectionValue s ty \<in>
        {Some ''sendrecv'', Some ''sendonly'', Some ''recvonly'', Some ''inactive''})
   \<and> (''a=sendrecv'' \<in> set (start s) \<and> getMedia s ''video'' = Some (pre @ ''a=sendonly'' # post)
        \<and> (\<forall>x\<in>set pre. checkSendRecv x = None) \<longrightarrow>
      getMediaDirection s ''video'' True = Some (False, True, Some ''sendonly''))"
proof -
  have particular: "getMediaDirectionValue s ''video'' = Some ''sendonly''"
    if "getMedia s ''video'' = Some (pre @ ''a=sendonly'' # post)"
      and "\<forall>x\<in>set pre. checkSendRecv x = None"
    using that scan_direction_first[of pre "''a=sendonly''" "''sendonly''"]
    by (simp add: getMediaDirectionValue_def checkSendRecv_def)
  have range: "getMediaDirectionValue s ty \<in>
        {Some ''sendrecv'', Some ''sendonly'', Some ''recvonly'', Some ''inactive''}"
    if "getMedia s ty \<noteq> None"
    using that getMediaDirectionValue_range[of s ty]
    by (auto simp: getMediaDirectionValue_def)
  show ?thesis
    using particular range
    by (auto simp: getMediaDirection_def getMediaDirectionValue_def Let_def)
qed

theorem getMediaDirection_perspective_witness:
  "getMediaDirection (new_AudioCodesSDP sdp_video_sendonly) ''video'' True
     = Some (False, True, Some ''sendonly'')
   \<and> getMediaDirection (new_AudioCodesSDP sdp_video_sendonly) ''video'' False
     = Some (True, False, Some ''sendonly'')
   \<and> getMediaDirection (new_AudioCodesSDP sdp_video_sendonly) ''audio'' True
     = Some (True, False, Some ''recvonly'')
   \<and> getMediaDirection (new_AudioCodesSDP sdp_video_plain) ''video'' True
     = Some (True, True, Some ''sendrecv'')
   \<and> getMediaDirection (new_AudioCodesSDP sdp_audio_inactive) ''audio'' False
     = Some (False, False, Some ''inactive'')
   \<and> getMediaDirection (new_AudioCodesSDP sdp_audio_inactive) ''video'' True
     = Some (False, False, None)"
proof -
  let ?s = "new_AudioCodesSDP sdp_video_sendonly"
  have m: "getMedia ?s ''video'' = Some ([''m=video 9 RTP/SAVPF 96'', ''a=mid:1''] @ ''a=sendonly'' # [])"
    by (simp add: parse_video_sendonly getMedia_def startsWith_def)
  have st: "''a=sendrecv'' \<in> set (start ?s)"
    by (simp add: parse_video_sendonly)
  have pre: "\<forall>x\<in>set [''m=video 9 RTP/SAVPF 96'', ''a=mid:1'']. checkSendRecv x = None"
    by (simp add: checkSendRecv_def)
  have c1: "getMediaDirection ?s ''video'' True = Some (False, True, Some ''sendonly'')"
    using getMediaDirection_perspective[of ?s "''video''" True "[''m=video 9 RTP/SAVPF 96'', ''a=mid:1'']" "[]"]
      m st pre by blast
  have v2: "getMediaDirectionValue ?s ''video'' = Some ''sendonly''"
    by (simp add: parse_video_sendonly getMediaDirectionValue_def getMedia_def startsWith_def checkSendRecv_def)
  have c2: "getMediaDirection ?s ''video'' False = Some (True, False, Some ''sendonly'')"
    using getMediaDirection_perspective[of ?s "''video''" False] v2 by simp
  have v3: "getMediaDirectionValue ?s ''audio'' = Some ''recvonly''"
    by (simp add: parse_video_sendonly getMediaDirectionValue_def getMedia_def startsWith_def checkSendRecv_def)
  have c3: "getMediaDirection ?s ''audio'' True = Some (True, False, Some ''recvonly'')"
    using getMediaDirection_perspective[of ?s "''audio''" True] v3 by simp
  have v4: "getMediaDirectionValue (new_AudioCodesSDP sdp_video_plain) ''video'' = Some ''sendrecv''"
    by (simp add: parse_video_plain getMediaDirectionValue_def getMedia_def startsWith_def checkSendRecv_def)
  have c4: "getMediaDirection (new_AudioCodesSDP sdp_video_plain) ''video'' True
      = Some (True, True, Some ''sendrecv'')"
    using getMediaDirection_perspective[of "new_AudioCodesSDP sdp_video_plain" "''video''" True] v4
    by simp
  have v5: "getMediaDirectionValue (new_AudioCodesSDP sdp_audio_inactive) ''audio'' = Some ''inactive''"
    by (simp add: parse_audio_inactive getMediaDirectionValue_def getMedia_def startsWith_def checkSendRecv_def)
  have c5: "getMediaDirection (new_AudioCodesSDP sdp_audio_inactive) ''audio'' False
      = Some (False, False, Some ''inactive'')"
    using getMediaDirection_perspective[of "new_AudioCodesSDP sdp_audio_inactive" "''audio''" False] v5
    by simp
  have v6: "getMedia (new_AudioCodesSDP sdp_audio_inactive) ''video'' = None"
    by (simp add: parse_audio_inactive getMedia_def startsWith_def)
  have c6: "getMediaDirection (new_AudioCodesSDP sdp_audio_inactive) ''video'' True
      = Some (False, False, None)"
    using getMediaDirection_perspective[of "new_AudioCodesSDP sdp_audio_inactive" "''video''" True] v6
    by simp
  show ?thesis using c1 c2 c3 c4 c5 c6 by simp
qed

text \<open>
  Claim C6. For a description that has a media block of the requested kind: when the
  session level holds a direction attribute and the block holds one too, the first
  direction attribute of the block is the resolved direction; when neither the session
  level nor the block holds a direction attribute, the resolved direction is \<open>sendrecv\<close>.
\<close>

theorem getMediaDirectionValue_override:
  "getMedia s ty = Some m \<Longrightarrow>
     (m = pre @ l # post \<and> (\<forall>x\<in>set pre. checkSendRecv x = None) \<and> checkSendRecv l = Some d
        \<and> (\<exists>x\<in>set (start s). checkSendRecv x \<noteq> None) \<longrightarrow>
      getMediaDirectionValue s ty = Some d)
   \<and> ((\<forall>x\<in>set (start s). checkSendRecv x = None) \<and> (\<forall>x\<in>set m. checkSendRecv x = None) \<longrightarrow>
      getMediaDirectionValue s ty = Some ''sendrecv'')"
  by (auto simp: getMediaDirectionValue_def scan_direction_first scan_direction_none)

theorem getMediaDirectionValue_override_witness:
  "getMediaDirectionValue (new_AudioCodesSDP sdp_video_sendonly) ''video'' = Some ''sendonly''
   \<and> getMediaDirectionValue (new_AudioCodesSDP sdp_video_plain) ''video'' = Some ''sendrecv''"
proof -
  let ?s = "new_AudioCodesSDP sdp_video_sendonly"
  let ?p = "new_AudioCodesSDP sdp_video_plain"
  have m: "getMedia ?s ''video'' = Some [''m=video 9 RTP/SAVPF 96'', ''a=mid:1'', ''a=sendonly'']"
    by (simp add: parse_video_sendonly getMedia_def startsWith_def)
  have split: "[''m=video 9 RTP/SAVPF 96'', ''a=mid:1'', ''a=sendonly'']
      = [''m=video 9 RTP/SAVPF 96'', ''a=mid:1''] @ ''a=sendonly'' # []"
    by simp
  have pre: "\<forall>x\<in>set [''m=video 9 RTP/SAVPF 96'', ''a=mid:1'']. checkSendRecv x = None"
    by (simp add: checkSendRecv_def)
  have l: "checkSendRecv ''a=sendonly'' = Some ''sendonly''"
    by (simp add: checkSendRecv_def)
  have st: "\<exists>x\<in>set (start ?s). checkSendRecv x \<noteq> None"
    by (simp add: parse_video_sendonly checkSendRecv_def)
  have c1: "getMediaDirectionValue ?s ''video'' = Some ''sendonly''"
    using getMediaDirectionValue_override[OF m,
        of "[''m=video 9 RTP/SAVPF 96'', ''a=mid:1'']" "''a=sendonly''" "[]" "''sendonly''"]
      split pre l st by blast
  have m2: "getMedia ?p ''video'' = Some [''m=video 9 RTP/SAVPF 96'', ''a=mid:1'']"
    by (simp add: parse_video_plain getMedia_def startsWith_def)
  have none1: "\<forall>x\<in>set (start ?p). checkSendRecv x = None"
    by (simp add: parse_video_plain checkSendRecv_def)
  have none2: "\<forall>x\<in>set [''m=video 9 RTP/SAVPF 96'', ''a=mid:1'']. checkSendRecv x = None"
    by (simp add: checkSendRecv_def)
  have c2: "getMediaDirectionValue ?p ''video'' = Some ''sendrecv''"
    using getMediaDirectionValue_override[OF m2] none1 none2 by blast
  show ?thesis using c1 c2 by simp
qed

lemma sdp_try_total: "sdp_try e \<noteq> None"
  using getMediaDirection_defined[of "new_AudioCodesSDP (e_sdp e)" "''video''" "e_originator e = ''remote''"]
  by (auto simp: sdp_try_def split: option.splits)

lemma remote_answer_type:
  "orig @ '' '' @ ty = ''remote answer'' \<Longrightarrow> orig = ''remote'' \<and> ty = ''answer''"
  by (auto simp: append_eq_Cons_conv)

lemma local_answer_type:
  "orig @ '' '' @ ty = ''local answer'' \<Longrightarrow> orig = ''local'' \<and> ty = ''answer''"
  by (auto simp: append_eq_Cons_conv)

section \<open>Properties of the \<open>sdp\<close> event\<close>

lemma sdp_checking_video:
  assumes "sdp_try e = Some (a, b)"
  shows "data_video (sdp_checking s e) =
     (if (e_originator e @ '' '' @ e_type e = ''remote answer''
            \<or> e_originator e @ '' '' @ e_type e = ''local answer'')
          \<and> \<not> isLocalHold s \<and> \<not> isRemoteHold s
      then (data_video s)\<lparr>send := a, receive := b\<rparr> else data_video s)"
proof -
  define ty where "ty = e_originator e @ '' '' @ e_type e"
  define ac1 where "ac1 = (if e_type e = ''answer'' then s\<lparr>data_initial := False\<rparr> else s)"
  have hold: "isLocalHold ac1 = isLocalHold s" "isRemoteHold ac1 = isRemoteHold s"
    and vid: "data_video ac1 = data_video s"
    by (simp_all add: ac1_def isLocalHold_def isRemoteHold_def)
  have unf: "sdp_checking s e =
      (if ty = ''remote offer'' then ac1
       else if ty = ''remote answer'' then
         (if isLocalHold ac1 \<or> isRemoteHold ac1 then ac1 else setVideoState ac1 a b)
       else if ty = ''local offer'' then ac1
       else if ty = ''local answer'' then
         (if isLocalHold ac1 \<or> isRemoteHold ac1 then ac1 else setVideoState ac1 a b)
       else ac1)"
    unfolding sdp_checking_def ty_def ac1_def Let_def assms by simp
  have ne: "''remote offer'' \<noteq> ''remote answer''" "''remote offer'' \<noteq> ''local answer''"
    "''local offer'' \<noteq> ''local answer''" "''local offer'' \<noteq> ''remote answer''"
    by simp_all
  have sv: "data_video (setVideoState ac1 a b) = (data_video s)\<lparr>send := a, receive := b\<rparr>"
    by (simp add: setVideoState_def vid)
  show ?thesis
    unfolding unf ty_def[symmetric] hold
    using ne sv vid by (cases "ty = ''remote offer''"; cases "ty = ''remote answer''";
        cases "ty = ''local offer''"; cases "ty = ''local answer''") auto
qed


lemma sdp_checking_initial:
  "data_initial (sdp_checking s e) = (data_initial s \<and> e_type e \<noteq> ''answer'')"
proof -
  obtain a b where tr: "sdp_try e = Some (a, b)"
    using sdp_try_total[of e] by (cases "sdp_try e") auto
  define ty where "ty = e_originator e @ '' '' @ e_type e"
  define ac1 where "ac1 = (if e_type e = ''answer'' then s\<lparr>data_initial := False\<rparr> else s)"
  have unf: "sdp_checking s e =
      (if ty = ''remote offer'' then ac1
       else if ty = ''remote answer'' then
         (if isLocalHold ac1 \<or> isRemoteHold ac1 then ac1 else setVideoState ac1 a b)
       else if ty = ''local offer'' then ac1
       else if ty = ''local answer'' then
         (if isLocalHold ac1 \<or> isRemoteHold ac1 then ac1 else setVideoState ac1 a b)
       else ac1)"
    unfolding sdp_checking_def ty_def ac1_def Let_def tr by simp
  have i1: "data_initial ac1 = (data_initial s \<and> e_type e \<noteq> ''answer'')"
    by (simp add: ac1_def)
  have i2: "data_initial (setVideoState ac1 a b) = data_initial ac1"
    by (simp add: setVideoState_def)
  have "data_initial (sdp_checking s e) = data_initial ac1"
    unfolding unf using i2 by simp
  with i1 show ?thesis by simp
qed

text \<open>
  Claim C1. An \<open>sdp\<close> event changes the negotiated video flags only when it is an answer
  (of the remote or of the local side) and the call is neither on local hold nor on
  remote hold; an offer, and any event that arrives while the call is on hold, leaves
  them as they are. An answer outside hold overwrites \<open>send\<close> and \<open>receive\<close> with the
  direction of the video block of its description.
\<close>

theorem sdp_checking_negotiated_video:
  "(data_video (sdp_checking s e) \<noteq> data_video s \<longrightarrow>
      (e_originator e = ''remote'' \<or> e_originator e = ''local'') \<and> e_type e = ''answer''
      \<and> \<not> isLocalHold s \<and> \<not> isRemoteHold s)
   \<and> (e_type e = ''offer'' \<longrightarrow> data_video (sdp_checking s e) = data_video s)
   \<and> (isLocalHold s \<or> isRemoteHold s \<longrightarrow> data_video (sdp_checking s e) = data_video s)
   \<and> ((e_originator e = ''remote'' \<or> e_originator e = ''local'') \<and> e_type e = ''answer''
        \<and> \<not> isLocalHold s \<and> \<not> isRemoteHold s
        \<and> getMediaDirection (new_AudioCodesSDP (e_sdp e)) ''video'' (e_originator e = ''remote'')
            = Some (sendv, recv, dir) \<longrightarrow>
      data_video (sdp_checking s e) = (data_video s)\<lparr>send := sendv, receive := recv\<rparr>)"
proof -
  obtain a b where tr: "sdp_try e = Some (a, b)"
    using sdp_try_total[of e] by (cases "sdp_try e") auto
  note v = sdp_checking_video[OF tr, of s]
  have c1: "data_video (sdp_checking s e) \<noteq> data_video s \<longrightarrow>
      (e_originator e = ''remote'' \<or> e_originator e = ''local'') \<and> e_type e = ''answer''
      \<and> \<not> isLocalHold s \<and> \<not> isRemoteHold s"
  proof
    assume ch: "data_video (sdp_checking s e) \<noteq> data_video s"
    then have c: "(e_originator e @ '' '' @ e_type e = ''remote answer''
            \<or> e_originator e @ '' '' @ e_type e = ''local answer'')
          \<and> \<not> isLocalHold s \<and> \<not> isRemoteHold s"
      unfolding v by (simp split: if_splits del: append_Cons append_Nil)
    then show "(e_originator e = ''remote'' \<or> e_originator e = ''local'') \<and> e_type e = ''answer''
      \<and> \<not> isLocalHold s \<and> \<not> isRemoteHold s"
      using remote_answer_type[of "e_originator e" "e_type e"]
        local_answer_type[of "e_originator e" "e_type e"] by blast
  qed
  have c2: "e_type e = ''offer'' \<longrightarrow> data_video (sdp_checking s e) = data_video s"
    using c1 by auto
  have c3: "isLocalHold s \<or> isRemoteHold s \<longrightarrow> data_video (sdp_checking s e) = data_video s"
    using c1 by auto
  have c4: "(e_originator e = ''remote'' \<or> e_originator e = ''local'') \<and> e_type e = ''answer''
        \<and> \<not> isLocalHold s \<and> \<not> isRemoteHold s
        \<and> getMediaDirection (new_AudioCodesSDP (e_sdp e)) ''video'' (e_originator e = ''remote'')
            = Some (sendv, recv, dir) \<longrightarrow>
      data_video (sdp_checking s e) = (data_video s)\<lparr>send := sendv, receive := recv\<rparr>"
  proof
    assume h: "(e_originator e = ''remote'' \<or> e_originator e = ''local'') \<and> e_type e = ''answer''
        \<and> \<not> isLocalHold s \<and> \<not> isRemoteHold s
        \<and> getMediaDirection (new_AudioCodesSDP (e_sdp e)) ''video'' (e_originator e = ''remote'')
            = Some (sendv, recv, dir)"
    then have ab: "a = sendv" "b = recv"
      using tr by (simp_all add: sdp_try_def)
    from h have "e_originator e @ '' '' @ e_type e = ''remote answer''
            \<or> e_originator e @ '' '' @ e_type e = ''local answer''"
      by auto
    with h show "data_video (sdp_checking s e) = (data_video s)\<lparr>send := sendv, receive := recv\<rparr>"
      unfolding v ab by simp
  qed
  show ?thesis using c1 c2 c3 c4 by blast
qed

lemma direction_video_sendonly_remote:
  "getMediaDirection (new_AudioCodesSDP sdp_video_sendonly) ''video'' True
     = Some (False, True, Some ''sendonly'')"
  by (simp add: parse_video_sendonly getMediaDirection_def getMediaDirectionValue_def
        getMedia_def startsWith_def checkSendRecv_def)

theorem sdp_checking_negotiated_video_witness:
  "data_video (sdp_checking call_video_held ev_local_answer) = data_video call_video_held
   \<and> data_video (sdp_checking call_video ev_remote_offer) = data_video call_video
   \<and> data_video (sdp_checking call_video ev_remote_answer)
       = \<lparr>send = False, receive = True, enabledSend = False, enabledReceive = False\<rparr>
   \<and> data_video call_video
       = \<lparr>send = True, receive = True, enabledSend = False, enabledReceive = False\<rparr>"
proof -
  have held: "isLocalHold call_video_held"
    by (simp add: call_video_held_def js_held_def isLocalHold_def)
  have c1: "data_video (sdp_checking call_video_held ev_local_answer) = data_video call_video_held"
    using sdp_checking_negotiated_video[of call_video_held ev_local_answer] held by blast
  have offer: "e_type ev_remote_offer = ''offer''"
    by (simp add: ev_remote_offer_def)
  have c2: "data_video (sdp_checking call_video ev_remote_offer) = data_video call_video"
    using sdp_checking_negotiated_video[of call_video ev_remote_offer] offer by blast
  have v: "data_video call_video
       = \<lparr>send = True, receive = True, enabledSend = False, enabledReceive = False\<rparr>"
    by (simp add: call_video_def setVideoState_def new_AudioCodesSession_def)
  have free: "\<not> isLocalHold call_video" "\<not> isRemoteHold call_video"
    by (simp_all add: call_video_def setVideoState_def new_AudioCodesSession_def js_idle_def
          isLocalHold_def isRemoteHold_def)
  have ans: "e_originator ev_remote_answer = ''remote''" "e_type ev_remote_answer = ''answer''"
    "e_sdp ev_remote_answer = sdp_video_sendonly"
    by (simp_all add: ev_remote_answer_def)
  have dir: "getMediaDirection (new_AudioCodesSDP (e_sdp ev_remote_answer)) ''video''
      (e_originator ev_remote_answer = ''remote'') = Some (False, True, Some ''sendonly'')"
    unfolding ans using direction_video_sendonly_remote by simp
  have "data_video (sdp_checking call_video ev_remote_answer)
      = (data_video call_video)\<lparr>send := False, receive := True\<rparr>"
    using sdp_checking_negotiated_video[of call_video ev_remote_answer False True "Some ''sendonly''"]
      free ans(1,2) dir by blast
  then have c3: "data_video (sdp_checking call_video ev_remote_answer)
       = \<lparr>send = False, receive = True, enabledSend = False, enabledReceive = False\<rparr>"
    by (simp add: v)
  show ?thesis using c1 c2 c3 v by simp
qed

lemma ended_listener_fst [simp]: "fst (ended_listener l r) = fst r"
  by (cases r) (simp add: ended_listener_def)

lemma startSendingVideo_initial:
  "data_initial (fst (startSendingVideo options me stack s)) = data_initial s"
  by (simp add: startSendingVideo_def Let_def setEnabledSendVideo_def setEnabledReceiveVideo_def
        split: sum.splits option.splits prod.splits)

lemma stopSendingVideo_initial:
  "data_initial (fst (stopSendingVideo options me stack s)) = data_initial s"
  by (simp add: stopSendingVideo_def Let_def setEnabledSendVideo_def
        split: sum.splits option.splits prod.splits)

lemma startScreenSharing_initial:
  "data_initial (fst (startScreenSharing me stack s)) = data_initial s"
  by (simp add: startScreenSharing_def Let_def setEnabledSendVideo_def
        split: sum.splits option.splits prod.splits)

lemma onEndedScreenSharing_initial:
  "data_initial (fst (onEndedScreenSharing l me stack s)) = data_initial s"
  by (simp add: onEndedScreenSharing_def Let_def stopSendingVideo_initial
        split: sum.splits option.splits prod.splits)

lemma stopScreenSharing_initial:
  "data_initial (fst (stopScreenSharing l me stack s)) = data_initial s"
  using onEndedScreenSharing_initial[of l me stack s]
  by (auto simp: stopScreenSharing_def split: option.splits prod.splits)

lemma call_step_initial:
  "data_initial (call_step s ev) = (data_initial s \<and> \<not> is_answer ev)"
  by (cases ev)
    (simp_all add: is_answer_def sdp_checking_initial setVideoState_def setRemoteHoldState_def
      startSendingVideo_initial stopSendingVideo_initial startScreenSharing_initial
      onEndedScreenSharing_initial stopScreenSharing_initial)

lemma call_run_initial:
  "data_initial (call_run s es) = (data_initial s \<and> (\<forall>ev\<in>set es. \<not> is_answer ev))"
  unfolding call_run_def
  by (induction es arbitrary: s) (auto simp: call_step_initial)

text \<open>
  Claim C7. The flag \<open>_initial\<close> is true in a new session; after any sequence of events it
  is true exactly when it was true before and no answer event was among them, so it
  turns false at the first answer event; once false, no event sets it back to true.
\<close>

theorem initial_flag_once:
  "data_initial (new_AudioCodesSession j)
   \<and> data_initial (call_run s es) = (data_initial s \<and> (\<forall>ev\<in>set es. \<not> is_answer ev))
   \<and> (\<not> data_initial s \<longrightarrow> \<not> data_initial (call_step s ev))
   \<and> (is_answer ev \<longrightarrow> \<not> data_initial (call_step s ev))"
  by (simp add: call_run_initial call_step_initial new_AudioCodesSession_def)

theorem initial_flag_once_witness:
  "data_initial (new_AudioCodesSession js_idle)
   \<and> data_initial (call_run (new_AudioCodesSession js_idle)
        [Sdp ev_remote_offer, JsSession js_held, IncomingVideoState True True])
   \<and> \<not> data_initial (call_run (new_AudioCodesSession js_idle)
        [Sdp ev_remote_offer, Sdp ev_remote_answer, JsSession js_held, Sdp ev_remote_offer])
   \<and> \<not> data_initial (call_step (new_AudioCodesSession js_idle) (Sdp ev_local_answer))
   \<and> \<not> data_initial (call_step (call_step (new_AudioCodesSession js_idle) (Sdp ev_local_answer))
          (Sdp ev_remote_offer))"
proof -
  let ?s = "new_AudioCodesSession js_idle"
  have a: "is_answer (Sdp ev_remote_answer)" "is_answer (Sdp ev_local_answer)"
    "\<not> is_answer (Sdp ev_remote_offer)" "\<not> is_answer (JsSession js_held)"
    "\<not> is_answer (IncomingVideoState True True)"
    by (simp_all add: is_answer_def ev_remote_answer_def ev_local_answer_def ev_remote_offer_def)
  have c0: "data_initial ?s"
    using initial_flag_once[of js_idle ?s "[]" "Sdp ev_remote_offer"] by blast
  have c1: "data_initial (call_run ?s [Sdp ev_remote_offer, JsSession js_held, IncomingVideoState True True])"
    using initial_flag_once[of js_idle ?s
        "[Sdp ev_remote_offer, JsSession js_held, IncomingVideoState True True]" "Sdp ev_remote_offer"]
      a by simp
  have c2: "\<not> data_initial (call_run ?s
        [Sdp ev_remote_offer, Sdp ev_remote_answer, JsSession js_held, Sdp ev_remote_offer])"
    using initial_flag_once[of js_idle ?s
        "[Sdp ev_remote_offer, Sdp ev_remote_answer, JsSession js_held, Sdp ev_remote_offer]"
        "Sdp ev_remote_offer"]
      a by simp
  have c3: "\<not> data_initial (call_step ?s (Sdp ev_local_answer))"
    using initial_flag_once[of js_idle ?s "[]" "Sdp ev_local_answer"] a by blast
  have c4: "\<not> data_initial (call_step (call_step ?s (Sdp ev_local_answer)) (Sdp ev_remote_offer))"
    using initial_flag_once[of js_idle "call_step ?s (Sdp ev_local_answer)" "[]" "Sdp ev_remote_offer"]
      c3 by blast
  show ?thesis using c0 c1 c2 c3 c4 by simp
qed

section \<open>Properties of renegotiation\<close>


lemma doRenegotiate_ended:
  "ended r \<Longrightarrow> doRenegotiate options r = ([Renegotiate options], Rejected JsUndefined)"
  by (simp add: doRenegotiate_def resolve_def reject_def Let_def)






text \<open>
  Claim C8, evaluated on an ended session: the promise of \<open>_doRenegotiate\<close> is rejected
  and \<open>_renegotiate\<close> throws at once, without a delay, but \<open>js_session.renegotiate\<close> has been
  called for that attempt all the same.
\<close>

theorem doRenegotiate_ended_still_requests:
  "doRenegotiate opts_none (stack_ended 0) = ([Renegotiate opts_none], Rejected JsUndefined)
   \<and> renegotiate opts_none stack_ended = ([Renegotiate opts_none], Threw JsUndefined)"
proof -
  have e: "ended (stack_ended 0)" by (simp add: stack_ended_def)
  have ro: "rest_options opts_none = opts_none"
    by (simp add: rest_options_def opts_none_def)
  have "renegotiate opts_none stack_ended = ([Renegotiate opts_none], Threw JsUndefined)"
    unfolding renegotiate_def ro
    by (subst renegotiate_loop.simps) (simp add: doRenegotiate_ended[OF e])
  then show ?thesis using doRenegotiate_ended[OF e] by simp
qed

section \<open>Properties of sending video and screen sharing\<close>

lemma renegotiate_loop_actions:
  "n = nat (rep - int i) \<Longrightarrow> a \<in> set (fst (renegotiate_loop stack rep del options i)) \<Longrightarrow>
   a = Renegotiate options \<or> a = SetTimeout del"
proof (induction n arbitrary: i a rule: less_induct)
  case (less n)
  show ?case
  proof (cases "snd (doRenegotiate options (stack i)) = Resolved False \<and> \<not> int (i + 1) \<ge> rep")
    case True
    then have d: "doRenegotiate options (stack i) = ([Renegotiate options], Resolved False)"
      by (simp add: doRenegotiate_def Let_def)
    have smaller: "nat (rep - int (i + 1)) < n"
      using True less.prems(1) by linarith
    have unf: "fst (renegotiate_loop stack rep del options i) =
        [Renegotiate options] @ [SetTimeout del]
          @ fst (renegotiate_loop stack rep del options (i + 1))"
      using True by (subst renegotiate_loop.simps) (simp add: d split: prod.splits)
    from less.prems(2) have "a = Renegotiate options \<or> a = SetTimeout del
        \<or> a \<in> set (fst (renegotiate_loop stack rep del options (i + 1)))"
      unfolding unf by auto
    then show ?thesis
      using less.IH[OF smaller refl] by blast
  next
    case False
    from less.prems(2) False show ?thesis
      by (subst (asm) renegotiate_loop.simps)
        (auto simp: doRenegotiate_def Let_def split: prod.splits promise.splits if_splits)
  qed
qed

lemma renegotiate_actions:
  "a \<in> set (fst (renegotiate opts stack)) \<Longrightarrow>
   a = Renegotiate (rest_options opts) \<or> (\<exists>d. a = SetTimeout d)"
  unfolding renegotiate_def using renegotiate_loop_actions[OF refl] by blast

text \<open>
  Claim C9. \<open>startSendingVideo\<close> on a session whose sending of video is enabled throws
  \<open>'video already started'\<close>, and \<open>stopSendingVideo\<close> on a session whose sending of video is
  not enabled throws \<open>'video already stopped'\<close>; in both cases no call has been made on the
  media engine or the JsSIP session and the session is as before.
\<close>

theorem video_misuse_fails_first:
  "(hasEnabledSendVideo s \<longrightarrow>
      startSendingVideo options me stack s = (s, [], Threw (JsError ''video already started'')))
   \<and> (\<not> hasEnabledSendVideo s \<longrightarrow>
      stopSendingVideo options me stack s = (s, [], Threw (JsError ''video already stopped'')))"
  by (simp add: startSendingVideo_def stopSendingVideo_def Let_def)

theorem video_misuse_fails_first_witness:
  "startSendingVideo opts_none browser stack_accepting call_sending
     = (call_sending, [], Threw (JsError ''video already started''))
   \<and> hasEnabledSendVideo call_sending
   \<and> stopSendingVideo opts_none browser stack_accepting (new_AudioCodesSession js_video_call)
     = (new_AudioCodesSession js_video_call, [], Threw (JsError ''video already stopped''))
   \<and> \<not> hasEnabledSendVideo (new_AudioCodesSession js_video_call)"
proof -
  have on: "hasEnabledSendVideo call_sending"
    by (simp add: call_sending_def hasEnabledSendVideo_def setEnabledSendVideo_def
          setEnabledReceiveVideo_def)
  have off: "\<not> hasEnabledSendVideo (new_AudioCodesSession js_video_call)"
    by (simp add: hasEnabledSendVideo_def new_AudioCodesSession_def)
  show ?thesis
    using video_misuse_fails_first[of call_sending opts_none browser stack_accepting] on
      video_misuse_fails_first[of "new_AudioCodesSession js_video_call" opts_none browser
        stack_accepting] off
    by blast
qed

lemma replaceSenderTrack_actions:
  "replaceSenderTrack me conn k st = Inr (acts, rej) \<Longrightarrow> a \<in> set acts \<Longrightarrow>
   \<exists>i t. a = ReplaceTrack i t"
  by (auto simp: replaceSenderTrack_def split: option.splits list.splits)

lemma ended_listener_parts:
  "fst (snd (ended_listener l (s, acts, out)))
     = acts @ (if out = Returned \<and> l then [CallScreenSharingEnded] else [])"
  "snd (snd (ended_listener l (s, acts, out))) = out"
  by (simp_all add: ended_listener_def)

lemma onEnded_had_video:
  assumes "\<not> isTerminated s" and "data_screenSharing s = Some ss" and "hadSendVideo ss"
  shows "onEndedScreenSharing l me stack s =
     (case replaceSenderTrack me (connection (js s)) ''video'' (localMediaStream (js s)) of
        Inl e \<Rightarrow> (s\<lparr>data_screenSharing := None\<rparr>, [], Threw e)
      | Inr (acts, rejection) \<Rightarrow>
          ended_listener l (s\<lparr>data_screenSharing := None\<rparr>,
            acts @ fst (renegotiate (screen_options ''X-Screen-Sharing: off'') stack),
            snd (renegotiate (screen_options ''X-Screen-Sharing: off'') stack)))"
  using assms
  by (simp add: onEndedScreenSharing_def isTerminated_def Let_def
        split: sum.splits prod.splits)

lemma onEnded_no_video:
  assumes "\<not> isTerminated s" and "data_screenSharing s = Some ss" and "\<not> hadSendVideo ss"
  shows "onEndedScreenSharing l me stack s =
     ended_listener l (stopSendingVideo (screen_options ''X-Screen-Sharing: off'') me stack
        (s\<lparr>data_screenSharing := None\<rparr>))"
  using assms
  by (simp add: onEndedScreenSharing_def isTerminated_def Let_def)

lemma startScreenSharing_returned:
  assumes "startScreenSharing me0 stack0 s0 = (s, acts0, Returned)"
  shows "hasEnabledSendVideo s
    \<and> (\<exists>t. data_screenSharing s = Some \<lparr>ss_track = t, hadSendVideo = hasSendVideo s0\<rparr>)"
  using assms
  by (auto simp: startScreenSharing_def Let_def setEnabledSendVideo_def hasEnabledSendVideo_def
        split: if_splits sum.splits prod.splits)

lemma onEnded_had_video_state:
  assumes "\<not> isTerminated s" and "data_screenSharing s = Some ss" and "hadSendVideo ss"
  shows "fst (onEndedScreenSharing l me stack s) = s\<lparr>data_screenSharing := None\<rparr>"
  unfolding onEnded_had_video[OF assms]
  by (simp split: sum.splits prod.splits)

lemma onEnded_had_video_no_addTrack:
  assumes "\<not> isTerminated s" and "data_screenSharing s = Some ss" and "hadSendVideo ss"
  shows "AddTrack t \<notin> set (fst (snd (onEndedScreenSharing l me stack s)))"
proof (cases "replaceSenderTrack me (connection (js s)) ''video'' (localMediaStream (js s))")
  case (Inl e)
  then show ?thesis
    unfolding onEnded_had_video[OF assms] by simp
next
  case (Inr r)
  obtain acts rej where r: "r = (acts, rej)" by (cases r)
  have a1: "AddTrack t \<notin> set acts"
    using replaceSenderTrack_actions[OF Inr [unfolded r] ] by blast
  have a2: "AddTrack t \<notin> set (fst (renegotiate (screen_options ''X-Screen-Sharing: off'') stack))"
    using renegotiate_actions[of "AddTrack t"] by blast
  show ?thesis
    unfolding onEnded_had_video[OF assms] Inr r
    using a1 a2 by (simp add: ended_listener_parts)
qed

text \<open>
  Claim C4, amended. When the screen-sharing track ends on a call that is not terminated
  and holds a screen-sharing record: if the record says that the call was sending video
  when screen sharing started, the handler never calls \<open>addTrack\<close> and leaves the video
  flags as they are, and, provided the connection has a video sender and the local
  stream a video track, it calls \<open>replaceTrack\<close> on that sender with that track and then
  renegotiates; otherwise it runs \<open>stopSendingVideo\<close>. After a \<open>startScreenSharing\<close> that
  returned, sending is enabled, the record holds whether video was sent before, and
  sending is still enabled after the restoring branch.
\<close>

theorem onEndedScreenSharing_cleanup:
  assumes "\<not> isTerminated s" and "data_screenSharing s = Some ss"
  shows
    "(hadSendVideo ss \<longrightarrow>
        (\<forall>t. AddTrack t \<notin> set (fst (snd (onEndedScreenSharing l me stack s))))
        \<and> data_video (fst (onEndedScreenSharing l me stack s)) = data_video s
        \<and> (find_sender_from 0 (connection (js s)) ''video'' = Some i
             \<and> localMediaStream (js s) = Some ts
             \<and> filter (\<lambda>t. kind t = ''video'') ts = cam # cams \<longrightarrow>
           onEndedScreenSharing l me stack s =
             ended_listener l
               (s\<lparr>data_screenSharing := None\<rparr>,
                ReplaceTrack i cam
                  # fst (renegotiate (screen_options ''X-Screen-Sharing: off'') stack),
                snd (renegotiate (screen_options ''X-Screen-Sharing: off'') stack))))
     \<and> (\<not> hadSendVideo ss \<longrightarrow>
        onEndedScreenSharing l me stack s =
          ended_listener l
            (stopSendingVideo (screen_options ''X-Screen-Sharing: off'') me stack
               (s\<lparr>data_screenSharing := None\<rparr>)))
     \<and> (startScreenSharing me0 stack0 s0 = (s, acts0, Returned) \<longrightarrow>
        hasEnabledSendVideo s \<and> hadSendVideo ss = hasSendVideo s0
        \<and> (hadSendVideo ss \<longrightarrow> hasEnabledSendVideo (fst (onEndedScreenSharing l me stack s))))"
proof -
  have c1: "hadSendVideo ss \<longrightarrow>
        (\<forall>t. AddTrack t \<notin> set (fst (snd (onEndedScreenSharing l me stack s))))
        \<and> data_video (fst (onEndedScreenSharing l me stack s)) = data_video s"
    using onEnded_had_video_no_addTrack[OF assms] onEnded_had_video_state[OF assms]
    by simp
  have c2: "hadSendVideo ss \<longrightarrow>
        (find_sender_from 0 (connection (js s)) ''video'' = Some i
             \<and> localMediaStream (js s) = Some ts
             \<and> filter (\<lambda>t. kind t = ''video'') ts = cam # cams \<longrightarrow>
           onEndedScreenSharing l me stack s =
             ended_listener l
               (s\<lparr>data_screenSharing := None\<rparr>,
                ReplaceTrack i cam
                  # fst (renegotiate (screen_options ''X-Screen-Sharing: off'') stack),
                snd (renegotiate (screen_options ''X-Screen-Sharing: off'') stack)))"
  proof (intro impI)
    assume h: "hadSendVideo ss"
      and f: "find_sender_from 0 (connection (js s)) ''video'' = Some i
             \<and> localMediaStream (js s) = Some ts
             \<and> filter (\<lambda>t. kind t = ''video'') ts = cam # cams"
    have "replaceSenderTrack me (connection (js s)) ''video'' (localMediaStream (js s))
        = Inr ([ReplaceTrack i cam], map_option EngineError (replaceTrack_error me))"
      using f by (simp add: replaceSenderTrack_def)
    then show "onEndedScreenSharing l me stack s =
             ended_listener l
               (s\<lparr>data_screenSharing := None\<rparr>,
                ReplaceTrack i cam
                  # fst (renegotiate (screen_options ''X-Screen-Sharing: off'') stack),
                snd (renegotiate (screen_options ''X-Screen-Sharing: off'') stack))"
      unfolding onEnded_had_video[OF assms h] by simp
  qed
  have c3: "\<not> hadSendVideo ss \<longrightarrow>
        onEndedScreenSharing l me stack s =
          ended_listener l
            (stopSendingVideo (screen_options ''X-Screen-Sharing: off'') me stack
               (s\<lparr>data_screenSharing := None\<rparr>))"
    using onEnded_no_video[OF assms] by simp
  have c4: "startScreenSharing me0 stack0 s0 = (s, acts0, Returned) \<longrightarrow>
        hasEnabledSendVideo s \<and> hadSendVideo ss = hasSendVideo s0
        \<and> (hadSendVideo ss \<longrightarrow> hasEnabledSendVideo (fst (onEndedScreenSharing l me stack s)))"
  proof
    assume st: "startScreenSharing me0 stack0 s0 = (s, acts0, Returned)"
    from startScreenSharing_returned[OF st] assms(2)
    have e: "hasEnabledSendVideo s" and hv: "hadSendVideo ss = hasSendVideo s0"
      by auto
    have "hadSendVideo ss \<longrightarrow> hasEnabledSendVideo (fst (onEndedScreenSharing l me stack s))"
      using c1 e by (simp add: hasEnabledSendVideo_def)
    with e hv show "hasEnabledSendVideo s \<and> hadSendVideo ss = hasSendVideo s0
        \<and> (hadSendVideo ss \<longrightarrow> hasEnabledSendVideo (fst (onEndedScreenSharing l me stack s)))"
      by simp
  qed
  show ?thesis using c1 c2 c3 c4 by blast
qed

lemma start_sharing_scenario:
  "startScreenSharing browser stack_accepting call_sending =
     (call_sharing,
      [GetDisplayMedia, SetDirection 1 ''sendrecv'', ReplaceTrack 1 screen,
       Renegotiate (screen_options ''X-Screen-Sharing: on'')],
      Returned)"
  by code_simp

lemma restore_eval:
  "ended_listener True
     (call_sharing\<lparr>data_screenSharing := None\<rparr>,
      ReplaceTrack 1 camera # fst (renegotiate (screen_options ''X-Screen-Sharing: off'') stack_accepting),
      snd (renegotiate (screen_options ''X-Screen-Sharing: off'') stack_accepting))
   = (call_sending,
      [ReplaceTrack 1 camera, Renegotiate (screen_options ''X-Screen-Sharing: off''),
       CallScreenSharingEnded],
      Returned)"
  by code_simp

lemma stop_eval:
  "ended_listener True
     (stopSendingVideo (screen_options ''X-Screen-Sharing: off'') browser stack_accepting
        (call_audio_sharing\<lparr>data_screenSharing := None\<rparr>))
   = ((new_AudioCodesSession js_audio_sharing)\<lparr>data_wasUsedSendVideo := True\<rparr>,
      [RemoveTrack 1, Renegotiate (screen_options ''X-Screen-Sharing: off''),
       CallScreenSharingEnded],
      Returned)"
  by code_simp

theorem onEndedScreenSharing_cleanup_witness:
  "onEndedScreenSharing True browser stack_accepting call_sharing
     = (call_sending,
        [ReplaceTrack 1 camera, Renegotiate (screen_options ''X-Screen-Sharing: off''),
         CallScreenSharingEnded],
        Returned)
   \<and> hasEnabledSendVideo call_sharing
   \<and> hasEnabledSendVideo (fst (onEndedScreenSharing True browser stack_accepting call_sharing))
   \<and> onEndedScreenSharing True browser stack_accepting call_audio_sharing
     = ((new_AudioCodesSession js_audio_sharing)\<lparr>data_wasUsedSendVideo := True\<rparr>,
        [RemoveTrack 1, Renegotiate (screen_options ''X-Screen-Sharing: off''),
         CallScreenSharingEnded],
        Returned)"
proof -
  have t1: "\<not> isTerminated call_sharing"
    by (simp add: isTerminated_def call_sharing_def call_sending_def setEnabledReceiveVideo_def
          setEnabledSendVideo_def setVideoState_def new_AudioCodesSession_def js_video_call_def)
  have s1: "data_screenSharing call_sharing = Some \<lparr>ss_track = screen, hadSendVideo = True\<rparr>"
    by (simp add: call_sharing_def)
  have f1: "find_sender_from 0 (connection (js call_sharing)) ''video'' = Some 1
      \<and> localMediaStream (js call_sharing) = Some [microphone, camera]
      \<and> filter (\<lambda>t. kind t = ''video'') [microphone, camera] = camera # []"
    by (simp add: call_sharing_def call_sending_def setEnabledReceiveVideo_def
          setEnabledSendVideo_def setVideoState_def new_AudioCodesSession_def js_video_call_def
          has_kind_def microphone_def camera_def)
  note w1 = onEndedScreenSharing_cleanup[OF t1 s1, of True browser stack_accepting 1
      "[microphone, camera]" camera "[]" browser stack_accepting call_sending
      "[GetDisplayMedia, SetDirection 1 ''sendrecv'', ReplaceTrack 1 screen,
        Renegotiate (screen_options ''X-Screen-Sharing: on'')]"]
  have c1: "onEndedScreenSharing True browser stack_accepting call_sharing
     = (call_sending,
        [ReplaceTrack 1 camera, Renegotiate (screen_options ''X-Screen-Sharing: off''),
         CallScreenSharingEnded],
        Returned)"
    using w1 f1 restore_eval by simp
  have c2: "hasEnabledSendVideo call_sharing
      \<and> hasEnabledSendVideo (fst (onEndedScreenSharing True browser stack_accepting call_sharing))"
    using w1 start_sharing_scenario by simp
  have t2: "\<not> isTerminated call_audio_sharing"
    by (simp add: isTerminated_def call_audio_sharing_def setEnabledSendVideo_def
          new_AudioCodesSession_def js_audio_sharing_def)
  have s2: "data_screenSharing call_audio_sharing
      = Some \<lparr>ss_track = screen, hadSendVideo = False\<rparr>"
    by (simp add: call_audio_sharing_def)
  have c3: "onEndedScreenSharing True browser stack_accepting call_audio_sharing
     = ((new_AudioCodesSession js_audio_sharing)\<lparr>data_wasUsedSendVideo := True\<rparr>,
        [RemoveTrack 1, Renegotiate (screen_options ''X-Screen-Sharing: off''),
         CallScreenSharingEnded],
        Returned)"
    using onEndedScreenSharing_cleanup[OF t2 s2, of True browser stack_accepting] stop_eval
    by simp
  show ?thesis using c1 c2 c3 by simp
qed

lemma second_sharing_state:
  "call_run (new_AudioCodesSession js_audio_call) second_sharing =
     \<lparr>js = js_audio_sharing, data_initial = False, data_wasUsedSendVideo = False,
      data_screenSharing = Some \<lparr>ss_track = screen, hadSendVideo = True\<rparr>,
      data_video = \<lparr>send = True, receive = False, enabledSend = True, enabledReceive = False\<rparr>\<rparr>"
  by code_simp

text \<open>
  Claim C4 as stated fails when the record says that video was sent but the local stream
  holds no camera track: the second screen sharing on an audio call records the screen
  video as sent before, and when it ends the handler renegotiates without replacing the
  track of the sender and without stopping the video.
\<close>

theorem ended_sharing_without_camera:
  "\<not> isTerminated (call_run (new_AudioCodesSession js_audio_call) second_sharing)
   \<and> data_screenSharing (call_run (new_AudioCodesSession js_audio_call) second_sharing)
       = Some \<lparr>ss_track = screen, hadSendVideo = True\<rparr>
   \<and> onEndedScreenSharing True browser stack_accepting
        (call_run (new_AudioCodesSession js_audio_call) second_sharing)
       = (\<lparr>js = js_audio_sharing, data_initial = False, data_wasUsedSendVideo = False,
           data_screenSharing = None,
           data_video = \<lparr>send = True, receive = False, enabledSend = True,
                          enabledReceive = False\<rparr>\<rparr>,
          [Renegotiate (screen_options ''X-Screen-Sharing: off''), CallScreenSharingEnded],
          Returned)"
  unfolding second_sharing_state by code_simp

section \<open>Properties of the keep-alive monitor\<close>

lemma stopWsKeepAlive_fields:
  "wsPingTask (stopWsKeepAlive ua) = None" "wsPongTask (stopWsKeepAlive ua) = None"
  "wsPongMs (stopWsKeepAlive ua) = wsPongMs ua" "wsSocket (stopWsKeepAlive ua) = wsSocket ua"
  "wsWasPong (stopWsKeepAlive ua) = wsWasPong ua" "wsPingMs (stopWsKeepAlive ua) = wsPingMs ua"
  "sockets (stopWsKeepAlive ua) = sockets ua"
  by ((cases "wsPingTask ua"; cases "wsPongTask ua"; simp add: stopWsKeepAlive_def Let_def)+)

lemma setWebSocketKeepAlive_fields:
  "wsWasPong (fst (setWebSocketKeepAlive a b c d ua)) = wsWasPong ua"
  "sockets (fst (setWebSocketKeepAlive a b c d ua)) = sockets ua"
  by (simp_all add: setWebSocketKeepAlive_def Let_def)

lemma onPong_disabled: "wsPongMs ua = 0 \<Longrightarrow> onPong now ua = (ua, None)"
  by (simp add: onPong_def)

lemma onPong_wasPong: "wsWasPong ua \<Longrightarrow> wsWasPong (fst (onPong now ua))"
  by (simp add: onPong_def Let_def split: option.splits)

lemma ka_step_wasPong: "wsWasPong ua \<Longrightarrow> wsWasPong (ka_step ua ev)"
  by (cases ev)
    (simp_all add: setWebSocketKeepAlive_fields startWsKeepAlive_def stopWsKeepAlive_fields
      pingTick_def onPongTimeout_def onMessageHook_def onPong_wasPong Let_def
      split: option.splits prod.splits)

lemma ka_run_wasPong: "wsWasPong ua \<Longrightarrow> wsWasPong (ka_run ua es)"
  unfolding ka_run_def
  by (induction es arbitrary: ua) (simp_all add: ka_step_wasPong)

text \<open>While the pong timeout is 0 and no pong timer is scheduled, both stay so.\<close>

lemma ka_step_disabled:
  assumes "wsPongMs ua = 0" and "wsPongTask ua = None" and "\<not> is_configure ev"
  shows "wsPongMs (ka_step ua ev) = 0 \<and> wsPongTask (ka_step ua ev) = None
    \<and> ws_closes (sockets (ka_step ua ev) i) = ws_closes (sockets ua i)
    \<and> (\<not> is_connected ev \<longrightarrow> wsSocket (ka_step ua ev) = wsSocket ua)"
  using assms
  by (cases ev)
    (auto simp: is_configure_def is_connected_def startWsKeepAlive_def stopWsKeepAlive_fields
      pingTick_def onMessageHook_def onPong_disabled Let_def split: option.splits prod.splits)

lemma ka_run_disabled:
  assumes "wsPongMs ua = 0" and "wsPongTask ua = None" and "\<forall>ev\<in>set es. \<not> is_configure ev"
  shows "wsPongMs (ka_run ua es) = 0 \<and> wsPongTask (ka_run ua es) = None
    \<and> ws_closes (sockets (ka_run ua es) i) = ws_closes (sockets ua i)"
  using assms unfolding ka_run_def
proof (induction es arbitrary: ua)
  case Nil
  then show ?case by simp
next
  case (Cons ev es)
  have s: "wsPongMs (ka_step ua ev) = 0 \<and> wsPongTask (ka_step ua ev) = None
      \<and> ws_closes (sockets (ka_step ua ev) i) = ws_closes (sockets ua i)"
    using ka_step_disabled[of ua ev i] Cons.prems by simp
  then show ?case using Cons.IH[of "ka_step ua ev"] Cons.prems by simp
qed

lemma ka_run_disabled_socket:
  assumes "wsPongMs ua = 0" and "wsPongTask ua = None"
    and "\<forall>ev\<in>set es. \<not> is_configure ev \<and> \<not> is_connected ev"
  shows "wsSocket (ka_run ua es) = wsSocket ua"
  using assms unfolding ka_run_def
proof (induction es arbitrary: ua)
  case Nil
  then show ?case by simp
next
  case (Cons ev es)
  have s: "wsPongMs (ka_step ua ev) = 0 \<and> wsPongTask (ka_step ua ev) = None
      \<and> wsSocket (ka_step ua ev) = wsSocket ua"
    using ka_step_disabled[of ua ev 0] Cons.prems by simp
  then show ?case using Cons.IH[of "ka_step ua ev"] Cons.prems by simp
qed

text \<open>
  Claim C2, amended. When the pong timer fires and the user agent has recorded no pong
  since it was created (\<open>wsWasPong\<close> is false), the pong timeout is set to 0, no socket is
  closed and the ping timer stays scheduled; from then on, until the keep-alive is
  configured again, the pong timeout stays 0, no pong timer is scheduled and no socket
  is closed, while each tick of the ping timer sends a ping on the socket of the
  connection that scheduled it, when that socket is open. When the pong timer fires and
  a pong has been recorded, both timers are cancelled and the socket in \<open>wsSocket\<close> is
  closed. The record of a pong is kept for good, also across a new connection.
\<close>

theorem onPongTimeout_branches:
  "(\<not> wsWasPong ua \<longrightarrow> onPongTimeout ua = ua\<lparr>wsPongTask := None, wsPongMs := 0\<rparr>)
   \<and> (\<not> wsWasPong ua \<and> (\<forall>ev\<in>set es. \<not> is_configure ev) \<longrightarrow>
        wsPongMs (ka_run (onPongTimeout ua) es) = 0
        \<and> wsPongTask (ka_run (onPongTimeout ua) es) = None
        \<and> ws_closes (sockets (ka_run (onPongTimeout ua) es) i) = ws_closes (sockets ua i))
   \<and> (\<not> wsWasPong ua \<and> (\<forall>ev\<in>set es. \<not> is_configure ev \<and> \<not> is_connected ev) \<longrightarrow>
        wsSocket (ka_run (onPongTimeout ua) es) = wsSocket ua)
   \<and> (\<not> wsWasPong ua \<and> wsPingTask ua = Some (period, websocket)
        \<and> ws_open (sockets ua websocket) \<longrightarrow>
        sockets (ka_step (onPongTimeout ua) (PingTimer now))
          = (sockets ua)(websocket := (sockets ua websocket)
               \<lparr>ws_pings := ws_pings (sockets ua websocket) + 1\<rparr>))
   \<and> (wsWasPong ua \<longrightarrow>
        wsPingTask (onPongTimeout ua) = None \<and> wsPongTask (onPongTimeout ua) = None
        \<and> wsPongMs (onPongTimeout ua) = wsPongMs ua
        \<and> wsSocket (onPongTimeout ua) = wsSocket ua
        \<and> sockets (onPongTimeout ua)
            = (case wsSocket ua of
                 None \<Rightarrow> sockets ua
               | Some s \<Rightarrow> (sockets ua)
                   (s := (sockets ua s)\<lparr>ws_closes := ws_closes (sockets ua s) + 1\<rparr>)))
   \<and> (wsWasPong ua \<longrightarrow> wsWasPong (ka_run ua es))"
proof -
  have first: "onPongTimeout ua = ua\<lparr>wsPongTask := None, wsPongMs := 0\<rparr>" if "\<not> wsWasPong ua"
    using that by (simp add: onPongTimeout_def Let_def)
  have c2: "\<not> wsWasPong ua \<and> (\<forall>ev\<in>set es. \<not> is_configure ev) \<longrightarrow>
        wsPongMs (ka_run (onPongTimeout ua) es) = 0
        \<and> wsPongTask (ka_run (onPongTimeout ua) es) = None
        \<and> ws_closes (sockets (ka_run (onPongTimeout ua) es) i) = ws_closes (sockets ua i)"
    using ka_run_disabled[of "ua\<lparr>wsPongTask := None, wsPongMs := 0\<rparr>" es i] first by simp
  have c3: "\<not> wsWasPong ua \<and> (\<forall>ev\<in>set es. \<not> is_configure ev \<and> \<not> is_connected ev) \<longrightarrow>
        wsSocket (ka_run (onPongTimeout ua) es) = wsSocket ua"
    using ka_run_disabled_socket[of "ua\<lparr>wsPongTask := None, wsPongMs := 0\<rparr>" es] first by simp
  have c4: "\<not> wsWasPong ua \<and> wsPingTask ua = Some (period, websocket)
        \<and> ws_open (sockets ua websocket) \<longrightarrow>
        sockets (ka_step (onPongTimeout ua) (PingTimer now))
          = (sockets ua)(websocket := (sockets ua websocket)
               \<lparr>ws_pings := ws_pings (sockets ua websocket) + 1\<rparr>)"
    using first by (auto simp: pingTick_def Let_def)
  have c5: "wsWasPong ua \<longrightarrow>
        wsPingTask (onPongTimeout ua) = None \<and> wsPongTask (onPongTimeout ua) = None
        \<and> wsPongMs (onPongTimeout ua) = wsPongMs ua
        \<and> wsSocket (onPongTimeout ua) = wsSocket ua
        \<and> sockets (onPongTimeout ua)
            = (case wsSocket ua of
                 None \<Rightarrow> sockets ua
               | Some s \<Rightarrow> (sockets ua)
                   (s := (sockets ua s)\<lparr>ws_closes := ws_closes (sockets ua s) + 1\<rparr>))"
    by (auto simp: onPongTimeout_def Let_def stopWsKeepAlive_fields split: option.splits)
  show ?thesis using first c2 c3 c4 c5 ka_run_wasPong[of ua es] by blast
qed

lemmas ka_defs = ka_run_def new_AudioCodesUA_def setWebSocketKeepAlive_def startWsKeepAlive_def
  stopWsKeepAlive_def pingTick_def onMessageHook_def onPong_def onPongTimeout_def Let_def
  fresh_sockets_def

lemma reconnect_state:
  "ka_run (new_AudioCodesUA fresh_sockets) reconnect_trace =
     (new_AudioCodesUA fresh_sockets)
       \<lparr>sockets := fresh_sockets
          (11 := \<lparr>ws_open = True, ws_hooked = True, ws_pings = 1, ws_closes = 0\<rparr>,
           12 := \<lparr>ws_open = True, ws_hooked = True, ws_pings = 1, ws_closes = 0\<rparr>),
        wsSocket := Some 12, wsPingTask := Some (10000, 12), wsPongTask := Some 10000,
        wsPingMs := 10000, wsPongMs := 10000, wsWasPong := True\<rparr>"
  by (simp add: reconnect_trace_def ka_defs)

text \<open>
  Claim C2 as stated fails after a reconnection: a pong was received on the first
  socket, the second socket never answered, and its first pong timeout closes it and
  keeps the pong timeout.
\<close>

theorem first_timeout_after_reconnect:
  "\<not> pong_seen_on_transport reconnect_trace
   \<and> wsPongTask (ka_run (new_AudioCodesUA fresh_sockets) reconnect_trace) = Some 10000
   \<and> wsSocket (ka_run (new_AudioCodesUA fresh_sockets) reconnect_trace) = Some 12
   \<and> wsPongMs (ka_step (ka_run (new_AudioCodesUA fresh_sockets) reconnect_trace) PongTimer)
       = 10000
   \<and> wsPingTask (ka_step (ka_run (new_AudioCodesUA fresh_sockets) reconnect_trace) PongTimer)
       = None
   \<and> sockets (ka_step (ka_run (new_AudioCodesUA fresh_sockets) reconnect_trace) PongTimer) 12
       = \<lparr>ws_open = True, ws_hooked = True, ws_pings = 1, ws_closes = 1\<rparr>"
proof -
  have "\<not> pong_seen_on_transport reconnect_trace"
    by (simp add: pong_seen_on_transport_def reconnect_trace_def)
  then show ?thesis
    unfolding reconnect_state
    by (simp add: new_AudioCodesUA_def onPongTimeout_def stopWsKeepAlive_def Let_def)
qed

lemma silent_state:
  "ka_run (new_AudioCodesUA fresh_sockets) silent_trace =
     (new_AudioCodesUA fresh_sockets)
       \<lparr>sockets := fresh_sockets
          (11 := \<lparr>ws_open = True, ws_hooked = True, ws_pings = 1, ws_closes = 0\<rparr>),
        wsSocket := Some 11, wsPingTask := Some (10000, 11), wsPongTask := Some 10000,
        wsPingMs := 10000, wsPongMs := 10000\<rparr>"
  by (simp add: silent_trace_def ka_defs)

lemma ponged_state:
  "ka_run (new_AudioCodesUA fresh_sockets) ponged_trace =
     (new_AudioCodesUA fresh_sockets)
       \<lparr>sockets := fresh_sockets
          (11 := \<lparr>ws_open = True, ws_hooked = True, ws_pings = 2, ws_closes = 0\<rparr>),
        wsSocket := Some 11, wsPingTask := Some (10000, 11), wsPongTask := Some 10000,
        wsPingMs := 10000, wsPongMs := 10000, wsWasPong := True\<rparr>"
  by (simp add: ponged_trace_def ka_defs numeral_2_eq_2)

lemma overlap_state:
  "ka_run (new_AudioCodesUA fresh_sockets) overlap_trace =
     (new_AudioCodesUA fresh_sockets)
       \<lparr>sockets := fresh_sockets
          (11 := \<lparr>ws_open = True, ws_hooked = True, ws_pings = 1, ws_closes = 0\<rparr>),
        wsSocket := Some 12, wsPingTask := Some (10000, 11), wsPongTask := Some 10000,
        wsPingMs := 10000, wsPongMs := 10000\<rparr>"
  by (simp add: overlap_trace_def ka_defs)

theorem onPongTimeout_branches_witness:
  "onPongTimeout (ka_run (new_AudioCodesUA fresh_sockets) silent_trace)
     = (ka_run (new_AudioCodesUA fresh_sockets) silent_trace)\<lparr>wsPongTask := None, wsPongMs := 0\<rparr>
   \<and> wsPongMs (ka_run (onPongTimeout (ka_run (new_AudioCodesUA fresh_sockets) silent_trace))
        later_events) = 0
   \<and> ws_closes (sockets (ka_run (onPongTimeout (ka_run (new_AudioCodesUA fresh_sockets)
        silent_trace)) later_events) 11) = 0
   \<and> wsSocket (ka_run (onPongTimeout (ka_run (new_AudioCodesUA fresh_sockets) silent_trace))
        [PingTimer 10000, PongTimer]) = Some 11
   \<and> sockets (ka_step (onPongTimeout (ka_run (new_AudioCodesUA fresh_sockets) silent_trace))
        (PingTimer 10000)) 11
       = \<lparr>ws_open = True, ws_hooked = True, ws_pings = 2, ws_closes = 0\<rparr>
   \<and> wsSocket (ka_run (new_AudioCodesUA fresh_sockets) overlap_trace) = Some 12
   \<and> sockets (ka_step (onPongTimeout (ka_run (new_AudioCodesUA fresh_sockets) overlap_trace))
        (PingTimer 10000)) 11
       = \<lparr>ws_open = True, ws_hooked = True, ws_pings = 2, ws_closes = 0\<rparr>
   \<and> sockets (ka_step (onPongTimeout (ka_run (new_AudioCodesUA fresh_sockets) overlap_trace))
        (PingTimer 10000)) 12
       = \<lparr>ws_open = True, ws_hooked = False, ws_pings = 0, ws_closes = 0\<rparr>
   \<and> wsPingTask (onPongTimeout (ka_run (new_AudioCodesUA fresh_sockets) ponged_trace)) = None
   \<and> wsPongTask (onPongTimeout (ka_run (new_AudioCodesUA fresh_sockets) ponged_trace)) = None
   \<and> sockets (onPongTimeout (ka_run (new_AudioCodesUA fresh_sockets) ponged_trace)) 11
       = \<lparr>ws_open = True, ws_hooked = True, ws_pings = 2, ws_closes = 1\<rparr>
   \<and> wsWasPong (ka_run (ka_run (new_AudioCodesUA fresh_sockets) ponged_trace)
        [Disconnected, Connected 12])"
proof -
  let ?silent = "ka_run (new_AudioCodesUA fresh_sockets) silent_trace"
  let ?overlap = "ka_run (new_AudioCodesUA fresh_sockets) overlap_trace"
  let ?ponged = "ka_run (new_AudioCodesUA fresh_sockets) ponged_trace"
  have no: "\<not> wsWasPong ?silent" and task: "wsPingTask ?silent = Some (10000, 11)"
    and sock: "sockets ?silent 11 = \<lparr>ws_open = True, ws_hooked = True, ws_pings = 1, ws_closes = 0\<rparr>"
    and cur: "wsSocket ?silent = Some 11"
    unfolding silent_state by (simp_all add: new_AudioCodesUA_def)
  have ev: "\<forall>ev\<in>set later_events. \<not> is_configure ev"
    by (simp add: later_events_def is_configure_def)
  have ev2: "\<forall>ev\<in>set [PingTimer 10000, PongTimer]. \<not> is_configure ev \<and> \<not> is_connected ev"
    by (simp add: is_configure_def is_connected_def)
  note w = onPongTimeout_branches[of ?silent later_events 11 10000 11 10000]
  note w2 = onPongTimeout_branches[of ?silent "[PingTimer 10000, PongTimer]" 11 10000 11 10000]
  have c1: "onPongTimeout ?silent = ?silent\<lparr>wsPongTask := None, wsPongMs := 0\<rparr>"
    using w no by blast
  have c2: "wsPongMs (ka_run (onPongTimeout ?silent) later_events) = 0"
    using w no ev by blast
  have "ws_closes (sockets (ka_run (onPongTimeout ?silent) later_events) 11)
      = ws_closes (sockets ?silent 11)"
    using w no ev by blast
  then have c3: "ws_closes (sockets (ka_run (onPongTimeout ?silent) later_events) 11) = 0"
    by (simp add: sock)
  have "wsSocket (ka_run (onPongTimeout ?silent) [PingTimer 10000, PongTimer]) = wsSocket ?silent"
    using w2 no ev2 by blast
  then have c4: "wsSocket (ka_run (onPongTimeout ?silent) [PingTimer 10000, PongTimer]) = Some 11"
    by (simp add: cur)
  have opn: "ws_open (sockets ?silent 11)" by (simp add: sock)
  have "sockets (ka_step (onPongTimeout ?silent) (PingTimer 10000))
      = (sockets ?silent)(11 := (sockets ?silent 11)\<lparr>ws_pings := ws_pings (sockets ?silent 11) + 1\<rparr>)"
    using w no task opn by blast
  then have c5: "sockets (ka_step (onPongTimeout ?silent) (PingTimer 10000)) 11
       = \<lparr>ws_open = True, ws_hooked = True, ws_pings = 2, ws_closes = 0\<rparr>"
    by (simp add: sock)
  have ono: "\<not> wsWasPong ?overlap" and otask: "wsPingTask ?overlap = Some (10000, 11)"
    and osock: "sockets ?overlap 11 = \<lparr>ws_open = True, ws_hooked = True, ws_pings = 1, ws_closes = 0\<rparr>"
    and osock2: "sockets ?overlap 12 = \<lparr>ws_open = True, ws_hooked = False, ws_pings = 0, ws_closes = 0\<rparr>"
    and c6: "wsSocket ?overlap = Some 12"
    unfolding overlap_state by (simp_all add: new_AudioCodesUA_def fresh_sockets_def)
  have oopn: "ws_open (sockets ?overlap 11)" by (simp add: osock)
  have o: "sockets (ka_step (onPongTimeout ?overlap) (PingTimer 10000))
      = (sockets ?overlap)(11 := (sockets ?overlap 11)\<lparr>ws_pings := ws_pings (sockets ?overlap 11) + 1\<rparr>)"
    using onPongTimeout_branches[of ?overlap "[]" 11 10000 11 10000] ono otask oopn by blast
  have c7: "sockets (ka_step (onPongTimeout ?overlap) (PingTimer 10000)) 11
       = \<lparr>ws_open = True, ws_hooked = True, ws_pings = 2, ws_closes = 0\<rparr>"
    unfolding o by (simp add: osock)
  have c8: "sockets (ka_step (onPongTimeout ?overlap) (PingTimer 10000)) 12
       = \<lparr>ws_open = True, ws_hooked = False, ws_pings = 0, ws_closes = 0\<rparr>"
    unfolding o by (simp add: osock2)
  have yes: "wsWasPong ?ponged" and pcur: "wsSocket ?ponged = Some 11"
    and psock: "sockets ?ponged 11 = \<lparr>ws_open = True, ws_hooked = True, ws_pings = 2, ws_closes = 0\<rparr>"
    unfolding ponged_state by (simp_all add: new_AudioCodesUA_def)
  note p = onPongTimeout_branches[of ?ponged "[Disconnected, Connected 12]"]
  have c9: "wsPingTask (onPongTimeout ?ponged) = None \<and> wsPongTask (onPongTimeout ?ponged) = None"
    using p yes by blast
  have "sockets (onPongTimeout ?ponged)
      = (case wsSocket ?ponged of
           None \<Rightarrow> sockets ?ponged
         | Some s \<Rightarrow> (sockets ?ponged)
             (s := (sockets ?ponged s)\<lparr>ws_closes := ws_closes (sockets ?ponged s) + 1\<rparr>))"
    using p yes by blast
  then have c10: "sockets (onPongTimeout ?ponged) 11
       = \<lparr>ws_open = True, ws_hooked = True, ws_pings = 2, ws_closes = 1\<rparr>"
    by (simp add: pcur psock)
  have c11: "wsWasPong (ka_run ?ponged [Disconnected, Connected 12])"
    using p yes by blast
  show ?thesis using c1 c2 c3 c4 c5 c6 c7 c8 c9 c10 c11 by simp
qed











end
